theory Spec2Isabelle
  imports Complex_Main
begin

section \<open>The mod registry and the event fan-out (twitchbot/modloader.py)\<close>

subsection \<open>Events, hooks and mods\<close>

text \<open>
  Modelled from the spec: the enum \<open>Event\<close> (twitchbot/enums.py) is imported by
  modloader.py and is not part of the sources at hand. Its members are the nine hook
  names listed in the external interfaces of the specification, which are also the nine
  coroutines of class \<open>Mod\<close>; \<open>event.value\<close> is the attribute name looked up on a mod.
\<close>

datatype event =
    on_connected
  | on_privmsg_sent
  | on_privmsg_received
  | on_whisper_sent
  | on_whisper_received
  | on_before_command_execute
  | on_after_command_execute
  | on_bits_donated
  | on_channel_joined

text \<open>
  What a raised object is, as far as \<open>except Exception\<close> can tell: an instance of
  \<open>Exception\<close> (any ordinary error), or an instance of \<open>BaseException\<close> outside
  \<open>Exception\<close> (KeyboardInterrupt, SystemExit, GeneratorExit, asyncio.CancelledError).
  The string is the printed form of the object.
\<close>

datatype exn = Exception string | BaseException_only string

fun is_Exception :: "exn \<Rightarrow> bool" where
  "is_Exception (Exception _) = True"
| "is_Exception (BaseException_only _) = False"

text \<open>Awaiting a hook either returns or raises.\<close>

datatype outcome = Returns | Raises exn

text \<open>
  class \<open>Mod\<close>: the class attribute \<open>name\<close>, the two properties, and the hooks. The
  result of \<open>getattr(mod, event.value, _missing_function)\<close> is \<open>hooks m ev\<close>, with
  \<open>None\<close> where the object has no such attribute. The lifecycle callbacks
  \<open>register\<close> and \<open>unregister\<close> are opaque to the loader; a call to one of them is
  recorded in the state.
\<close>

record 'a Mod =
  name :: string
  can_register :: bool
  can_unregister :: bool
  hooks :: "event \<Rightarrow> ('a list \<Rightarrow> outcome) option"

datatype 'a effect =
    Called_register "'a Mod"
  | Called_unregister "'a Mod"
  | Hook_awaited "'a Mod" event "'a list"
  | Error_printed string event exn

text \<open>
  The module-level dictionary \<open>mods\<close>. A Python dict keeps its keys in insertion order
  and \<open>mods.values()\<close> iterates in that order, so it is an association list; \<open>log\<close>
  collects what the loader has called or printed so far.
\<close>

record 'a registry =
  mods :: "(string \<times> 'a Mod) list"
  log :: "'a effect list"

subsection \<open>Dictionary operations\<close>

definition dict_contains :: "'k \<Rightarrow> ('k \<times> 'v) list \<Rightarrow> bool" where
  "dict_contains k d = (k \<in> set (map fst d))"

fun dict_setitem :: "'k \<Rightarrow> 'v \<Rightarrow> ('k \<times> 'v) list \<Rightarrow> ('k \<times> 'v) list" where
  "dict_setitem k v [] = [(k, v)]"
| "dict_setitem k v ((k', v') # d) =
     (if k' = k then (k, v) # d else (k', v') # dict_setitem k v d)"

fun dict_delitem :: "'k \<Rightarrow> ('k \<times> 'v) list \<Rightarrow> ('k \<times> 'v) list" where
  "dict_delitem k [] = []"
| "dict_delitem k ((k', v') # d) =
     (if k' = k then dict_delitem k d else (k', v') # dict_delitem k d)"

definition dict_values :: "('k \<times> 'v) list \<Rightarrow> 'v list" where
  "dict_values d = map snd d"

definition dict_get :: "('k \<times> 'v) list \<Rightarrow> 'k \<Rightarrow> 'v option" where
  "dict_get d k = map_of d k"

subsection \<open>register\_mod and unregister\_mod\<close>

definition register_mod :: "'a Mod \<Rightarrow> 'a registry \<Rightarrow> bool \<times> 'a registry" where
  "register_mod m st =
     (if dict_contains (name m) (mods st) \<or> \<not> can_register m then (False, st)
      else (True, st\<lparr>mods := dict_setitem (name m) m (mods st),
                      log := log st @ [Called_register m]\<rparr>))"

definition unregister_mod :: "'a Mod \<Rightarrow> 'a registry \<Rightarrow> bool \<times> 'a registry" where
  "unregister_mod m st =
     (if \<not> can_unregister m then (False, st)
      else if dict_contains (name m) (mods st)
        then (True, st\<lparr>mods := dict_delitem (name m) (mods st),
                        log := log st @ [Called_unregister m]\<rparr>)
      else (False, st))"

subsection \<open>trigger\_mod\_event\<close>

text \<open>
  The loop over \<open>mods.values()\<close>. The \<open>try\<close> body awaits the hook (or the local
  \<open>_missing_function\<close>, which does nothing); \<open>except Exception\<close> prints the details and
  the loop goes on; anything else that was raised leaves the loop and the coroutine.
  The second component of the result is the exception that leaves, if any.
\<close>

fun trigger_loop ::
  "event \<Rightarrow> 'a list \<Rightarrow> 'a Mod list \<Rightarrow> 'a effect list \<Rightarrow> 'a effect list \<times> exn option"
where
  "trigger_loop ev args [] lg = (lg, None)"
| "trigger_loop ev args (m # ms) lg =
     (case hooks m ev of
        None \<Rightarrow> trigger_loop ev args ms lg
      | Some h \<Rightarrow>
          (case h args of
             Returns \<Rightarrow> trigger_loop ev args ms (lg @ [Hook_awaited m ev args])
           | Raises e \<Rightarrow>
               if is_Exception e
               then trigger_loop ev args ms
                      (lg @ [Hook_awaited m ev args, Error_printed (name m) ev e])
               else (lg @ [Hook_awaited m ev args], Some e)))"

definition trigger_mod_event ::
  "event \<Rightarrow> 'a list \<Rightarrow> 'a registry \<Rightarrow> 'a registry \<times> exn option"
where
  "trigger_mod_event ev args st =
     (case trigger_loop ev args (dict_values (mods st)) (log st) of
        (lg, r) \<Rightarrow> (st\<lparr>log := lg\<rparr>, r))"

section \<open>Python strings and builtins used by the poll commands\<close>

subsection \<open>The poll text\<close>

text \<open>
  A Python \<open>str\<close> is a sequence of code points. The text the pattern of the poll
  commands is matched against is modelled as a \<open>string\<close> whose characters are the code
  points U+0000 to U+00FF, one \<open>char\<close> each; \<open>ord\<close> is the code point. The character
  classes below are those of \<open>str.isdecimal\<close>, \<open>str.isspace\<close> and of the \<open>re\<close>
  module's \<open>\<backslash>w\<close> on that range.
\<close>

definition ord :: "char \<Rightarrow> nat" where
  "ord c = of_char c"

definition between :: "nat \<Rightarrow> nat \<Rightarrow> char \<Rightarrow> bool" where
  "between lo hi c = (lo \<le> ord c \<and> ord c \<le> hi)"

definition char_isdecimal :: "char \<Rightarrow> bool" where
  "char_isdecimal c = between 48 57 c"

definition char_isspace :: "char \<Rightarrow> bool" where
  "char_isspace c = (between 9 13 c \<or> between 28 32 c \<or> ord c = 133 \<or> ord c = 160)"

definition char_isword :: "char \<Rightarrow> bool" where
  \<comment> \<open>\<open>\<backslash>w\<close>: alphanumeric code points and the underscore\<close>
  "char_isword c =
     (between 48 57 c \<or> between 65 90 c \<or> ord c = 95 \<or> between 97 122 c
      \<or> ord c = 170 \<or> between 178 179 c \<or> ord c = 181 \<or> between 185 186 c
      \<or> between 188 190 c \<or> between 192 214 c \<or> between 216 246 c
      \<or> between 248 255 c)"

definition strip :: "string \<Rightarrow> string" where
  "strip s = rev (dropWhile char_isspace (rev (dropWhile char_isspace s)))"

fun split_on :: "char \<Rightarrow> string \<Rightarrow> string list" where
  "split_on sep [] = [[]]"
| "split_on sep (c # s) =
     (if c = sep then [] # split_on sep s
      else (case split_on sep s of [] \<Rightarrow> [[c]] | w # ws \<Rightarrow> (c # w) # ws))"

text \<open>The value of a run of ASCII digits, most significant first.\<close>

definition decimal_value :: "string \<Rightarrow> nat" where
  "decimal_value s = foldl (\<lambda>a c. 10 * a + (ord c - 48)) 0 s"

text \<open>
  \<open>float(s)\<close> on strings of ASCII digits and full stops, which is all that the group
  \<open>time\<close> of the pattern below can capture: the string is a number when it has exactly
  one or no full stop and at least one digit; otherwise \<open>float\<close> raises ValueError
  (\<open>None\<close>). The value is the exact decimal value; Python rounds it to the nearest
  double, which leaves whole numbers of seconds such as 60 as they are. Signs, exponents
  and the other forms \<open>float\<close> accepts contain characters the group cannot capture and
  are not modelled.
\<close>

definition py_float :: "string \<Rightarrow> real option" where
  "py_float s =
     (let ip = takeWhile char_isdecimal s; r = dropWhile char_isdecimal s
      in case r of
           [] \<Rightarrow> if ip = [] then None else Some (real (decimal_value ip))
         | c # fp \<Rightarrow>
             if c = CHR ''.'' \<and> list_all char_isdecimal fp \<and> (ip \<noteq> [] \<or> fp \<noteq> [])
             then Some (real (decimal_value (ip @ fp)) / 10 ^ length fp)
             else None)"

subsection \<open>Strings of any code points\<close>

text \<open>
  The arguments of a command, the names and the texts the handlers build are strings of
  any code points: a \<open>ustring\<close> is the list of the code points of a \<open>str\<close>, and
  \<open>u\<close> gives the \<open>ustring\<close> of a literal of the source.
\<close>

type_synonym ustring = "int list"

definition code_point :: "char \<Rightarrow> int" where
  "code_point c = of_char c"

definition u :: "string \<Rightarrow> ustring" where
  "u s = map code_point s"

fun join :: "'a list \<Rightarrow> 'a list list \<Rightarrow> 'a list" where
  "join sep [] = []"
| "join sep [x] = x"
| "join sep (x # y # ys) = x @ sep @ join sep (y # ys)"

text \<open>\<open>str(n)\<close> for an \<open>int\<close>, as an f-string prints it.\<close>

definition digit_char :: "nat \<Rightarrow> char" where
  "digit_char d = char_of (48 + d)"

function str_nat :: "nat \<Rightarrow> string" where
  "str_nat n = (if n < 10 then [digit_char n] else str_nat (n div 10) @ [digit_char (n mod 10)])"
  by pat_completeness auto
termination
  by (relation "measure id") auto

declare str_nat.simps [simp del]

definition str_int :: "int \<Rightarrow> string" where
  "str_int i = (if i < 0 then CHR ''-'' # str_nat (nat (- i)) else str_nat (nat i))"

subsection \<open>Digits of all scripts, str.isdigit and int\<close>

text \<open>
  The decimal digits of Unicode 14.0 (general category Nd, the characters of
  \<open>str.isdecimal\<close>) come in runs of ten, the digits 0 to 9 of one script in order.
  \<open>decimal_zeros\<close> lists the code point of the zero of each run, from the ASCII digits
  and the Arabic-Indic digits to the segmented digits at U+1FBF0.
\<close>

definition decimal_zeros :: "int list" where
  "decimal_zeros =
     [0x30, 0x660, 0x6F0, 0x7C0, 0x966, 0x9E6, 0xA66, 0xAE6, 0xB66, 0xBE6, 0xC66, 0xCE6,
      0xD66, 0xDE6, 0xE50, 0xED0, 0xF20, 0x1040, 0x1090, 0x17E0, 0x1810, 0x1946, 0x19D0,
      0x1A80, 0x1A90, 0x1B50, 0x1BB0, 0x1C40, 0x1C50, 0xA620, 0xA8D0, 0xA900, 0xA9D0,
      0xA9F0, 0xAA50, 0xABF0, 0xFF10, 0x104A0, 0x10D30, 0x11066, 0x110F0, 0x11136, 0x111D0,
      0x112F0, 0x11450, 0x114D0, 0x11650, 0x116C0, 0x11730, 0x118E0, 0x11950, 0x11C50,
      0x11D50, 0x11DA0, 0x16A60, 0x16AC0, 0x16B50, 0x1D7CE, 0x1D7D8, 0x1D7E2, 0x1D7EC,
      0x1D7F6, 0x1E140, 0x1E2F0, 0x1E950, 0x1FBF0]"

text \<open>\<open>unicode_decimal c\<close> is the value of the decimal digit \<open>c\<close>, and \<open>None\<close> for any other code point.\<close>

definition unicode_decimal :: "int \<Rightarrow> nat option" where
  "unicode_decimal c = map_option (\<lambda>z. nat (c - z)) (find (\<lambda>z. z \<le> c \<and> c \<le> z + 9) decimal_zeros)"

definition unicode_isdecimal :: "int \<Rightarrow> bool" where
  "unicode_isdecimal c = (unicode_decimal c \<noteq> None)"

text \<open>
  The characters that are digits for \<open>str.isdigit\<close> without being decimal digits:
  superscripts and subscripts, circled and parenthesised digits and the like, as ranges
  of code points.
\<close>

definition other_digits :: "(int \<times> int) list" where
  "other_digits =
     [(0xB2, 0xB3), (0xB9, 0xB9), (0x1369, 0x1371), (0x19DA, 0x19DA), (0x2070, 0x2070),
      (0x2074, 0x2079), (0x2080, 0x2089), (0x2460, 0x2468), (0x2474, 0x247C),
      (0x2488, 0x2490), (0x24EA, 0x24EA), (0x24F5, 0x24FD), (0x24FF, 0x24FF),
      (0x2776, 0x277E), (0x2780, 0x2788), (0x278A, 0x2792), (0x10A40, 0x10A43),
      (0x10E60, 0x10E68), (0x11052, 0x1105A), (0x1F100, 0x1F10A)]"

definition in_ranges :: "(int \<times> int) list \<Rightarrow> int \<Rightarrow> bool" where
  "in_ranges rs c = list_ex (\<lambda>(lo, hi). lo \<le> c \<and> c \<le> hi) rs"

definition unicode_isdigit :: "int \<Rightarrow> bool" where
  "unicode_isdigit c = (unicode_isdecimal c \<or> in_ranges other_digits c)"

definition isdigit :: "ustring \<Rightarrow> bool" where
  \<comment> \<open>\<open>str.isdigit\<close>: at least one character, and all of them digits\<close>
  "isdigit s = (s \<noteq> [] \<and> list_all unicode_isdigit s)"

datatype command = Startpoll | Vote | Listpolls | Pollinfo

datatype error =
    InvalidArgumentsError ustring "command option"
  | ValueError
  | IndexError

text \<open>
  \<open>int(s)\<close> for a \<open>str\<close>: surrounding whitespace is dropped (for this conversion the
  separators U+001C to U+001F do not count as whitespace), then an optional sign, then
  decimal digits of any script, where single underscores may stand between digits.
  Anything else is a ValueError. The tables are those of Python 3.11 (Unicode 14.0). The
  limit on the length of the string, 4300 digits unless the interpreter is set up
  otherwise, is not modelled.
\<close>

definition int_spaces :: "(int \<times> int) list" where
  "int_spaces =
     [(0x9, 0xD), (0x20, 0x20), (0x85, 0x85), (0xA0, 0xA0), (0x1680, 0x1680),
      (0x2000, 0x200A), (0x2028, 0x2029), (0x202F, 0x202F), (0x205F, 0x205F),
      (0x3000, 0x3000)]"

definition int_isspace :: "int \<Rightarrow> bool" where
  "int_isspace c = in_ranges int_spaces c"

fun int_digits_ok :: "ustring \<Rightarrow> bool" where
  "int_digits_ok [] = False"
| "int_digits_ok [c] = unicode_isdecimal c"
| "int_digits_ok (c # d # r) =
     (unicode_isdecimal c \<and>
      (if d = code_point CHR ''_'' then int_digits_ok r else int_digits_ok (d # r)))"

text \<open>The value of a run of decimal digits, most significant first.\<close>

definition int_value :: "ustring \<Rightarrow> nat" where
  "int_value s = foldl (\<lambda>a c. 10 * a + (case unicode_decimal c of None \<Rightarrow> 0 | Some d \<Rightarrow> d)) 0 s"

definition int_unsigned :: "ustring \<Rightarrow> error + int" where
  "int_unsigned b =
     (if int_digits_ok b
      then Inr (int (int_value (filter (\<lambda>c. c \<noteq> code_point CHR ''_'') b)))
      else Inl ValueError)"

definition py_int :: "ustring \<Rightarrow> error + int" where
  "py_int s =
     (case rev (dropWhile int_isspace (rev (dropWhile int_isspace s))) of
        [] \<Rightarrow> Inl ValueError
      | c # b \<Rightarrow>
          if c = code_point CHR ''-'' then map_sum id uminus (int_unsigned b)
          else if c = code_point CHR ''+'' then int_unsigned b
          else int_unsigned (c # b))"

section \<open>The poll commands (twitchbot/builtin\_commands/poll\_commands.py)\<close>

subsection \<open>The pattern RE\_POLL\_INFO and its matcher\<close>

text \<open>
  The pattern is a sequence of pieces. Each piece is one character class, taken once or
  repeated greedily, and may be a capture group. This is the fragment of the \<open>re\<close>
  language the pattern is written in. A match is the list of the groups' names and texts
  in the order of the groups, so \<open>match[i]\<close> is the text of entry \<open>i - 1\<close>.
\<close>

datatype quantifier = Once | Star | Plus

datatype piece = Piece "string option" "char \<Rightarrow> bool" quantifier

type_synonym match = "(string \<times> string) list"

text \<open>
  Backtracking over one greedy piece: \<open>first_down f lo n\<close> is the first success among
  \<open>f n\<close>, \<open>f (n - 1)\<close>, ..., \<open>f lo\<close>, the longest repetition being tried first.
\<close>

fun first_down :: "(nat \<Rightarrow> 'a option) \<Rightarrow> nat \<Rightarrow> nat \<Rightarrow> 'a option" where
  "first_down f lo 0 = (if 0 < lo then None else f 0)"
| "first_down f lo (Suc n) =
     (if Suc n < lo then None
      else (case f (Suc n) of Some r \<Rightarrow> Some r | None \<Rightarrow> first_down f lo n))"

definition least_count :: "quantifier \<Rightarrow> nat" where
  "least_count q = (case q of Star \<Rightarrow> 0 | _ \<Rightarrow> 1)"

definition most_count :: "quantifier \<Rightarrow> (char \<Rightarrow> bool) \<Rightarrow> string \<Rightarrow> nat" where
  "most_count q cls s =
     (case q of Once \<Rightarrow> min 1 (length (takeWhile cls s)) | _ \<Rightarrow> length (takeWhile cls s))"

definition capture :: "string option \<Rightarrow> string \<Rightarrow> match \<Rightarrow> match" where
  "capture g txt m = (case g of None \<Rightarrow> m | Some nm \<Rightarrow> (nm, txt) # m)"

text \<open>\<open>re_match\<close> matches the pieces at the start of the text.\<close>

fun re_match :: "piece list \<Rightarrow> string \<Rightarrow> match option" where
  "re_match [] s = Some []"
| "re_match (Piece g cls q # ps) s =
     first_down (\<lambda>n. map_option (capture g (take n s)) (re_match ps (drop n s)))
       (least_count q) (most_count q cls s)"

text \<open>\<open>Pattern.search\<close>: the match at the leftmost position that has one.\<close>

fun re_search :: "piece list \<Rightarrow> string \<Rightarrow> match option" where
  "re_search ps [] = re_match ps []"
| "re_search ps (c # s) =
     (case re_match ps (c # s) of Some m \<Rightarrow> Some m | None \<Rightarrow> re_search ps s)"

definition group :: "match \<Rightarrow> nat \<Rightarrow> string" where
  "group m i = (if 0 < i \<and> i \<le> length m then snd (m ! (i - 1)) else [])"

definition any_char :: "char \<Rightarrow> bool" where
  \<comment> \<open>\<open>.\<close> without DOTALL: any character but the newline\<close>
  "any_char c = (ord c \<noteq> 10)"

definition options_char :: "char \<Rightarrow> bool" where
  \<comment> \<open>the class \<open>[\<backslash>w\<backslash>d\<backslash>s,]\<close>\<close>
  "options_char c = (char_isword c \<or> char_isdecimal c \<or> char_isspace c \<or> c = CHR '','')"

definition time_char :: "char \<Rightarrow> bool" where
  \<comment> \<open>the class \<open>[0-9.]\<close>\<close>
  "time_char c = (between 48 57 c \<or> c = CHR ''.'')"

definition RE_POLL_INFO :: "piece list" where
  "RE_POLL_INFO =
     [Piece (Some ''title'') any_char Plus,
      Piece None (\<lambda>c. c = CHR ''['') Once,
      Piece (Some ''options'') options_char Plus,
      Piece None (\<lambda>c. c = CHR '']'') Once,
      Piece None char_isspace Star,
      Piece (Some ''time'') time_char Star]"

subsection \<open>Messages, configuration and the poll subsystem\<close>

text \<open>
  Class \<open>Message\<close> is not part of the sources at hand. A message is modelled by what the
  commands read from it: \<open>msg.channel\<close>, \<open>msg.channel_name\<close>, \<open>msg.author\<close>,
  \<open>msg.mention\<close>, and \<open>msg[1:]\<close>, the text that follows the command word and that
  the pattern is matched against.
\<close>

record 'c message =
  channel :: 'c
  channel_name :: ustring
  author :: ustring
  mention :: ustring
  after_command :: string

record config =
  prefix :: ustring

text \<open>
  Modelled from the spec: class \<open>PollData\<close> is not part of the sources at hand. The
  record keeps the arguments that \<open>_parse_poll_data\<close> passes to its constructor: the
  channel, the owner, the title, the duration in seconds and the choices.
\<close>

record 'c poll_data =
  pd_channel :: 'c
  pd_owner :: ustring
  pd_title :: string
  pd_duration_seconds :: real
  pd_choices :: "string list"

text \<open>
  The poll subsystem is outside the sources at hand and is a parameter of the commands:
  \<open>'s\<close> is the state of the subsystem, \<open>'p\<close> a poll object in it. The three lookup
  functions and the methods and attributes of a poll that the commands use are the
  fields; \<open>add_vote\<close>, the one method that changes a poll, returns the new state.
  \<open>seconds_left\<close> and \<open>votes\<close> give the text that formatting the attribute yields.
\<close>

record ('s, 'p) polls =
  get_active_channel_polls :: "'s \<Rightarrow> ustring \<Rightarrow> 'p list"
  get_active_channel_poll_count :: "'s \<Rightarrow> ustring \<Rightarrow> int"
  get_channel_poll_by_id :: "'s \<Rightarrow> ustring \<Rightarrow> int \<Rightarrow> 'p option"
  poll_id :: "'s \<Rightarrow> 'p \<Rightarrow> int"
  poll_title :: "'s \<Rightarrow> 'p \<Rightarrow> ustring"
  seconds_left :: "'s \<Rightarrow> 'p \<Rightarrow> ustring"
  votes :: "'s \<Rightarrow> 'p \<Rightarrow> ustring"
  format_choices :: "'s \<Rightarrow> 'p \<Rightarrow> ustring"
  is_valid_vote :: "'s \<Rightarrow> 'p \<Rightarrow> int \<Rightarrow> bool"
  has_already_voted :: "'s \<Rightarrow> 'p \<Rightarrow> ustring \<Rightarrow> bool"
  add_vote :: "'s \<Rightarrow> 'p \<Rightarrow> ustring \<Rightarrow> int \<Rightarrow> 's"

text \<open>
  What one run of a command handler did: the state of the poll subsystem after it, the
  texts passed to \<open>msg.reply\<close>, the calls of \<open>add_vote\<close> (poll, voter, choice), the lines
  printed, and the error it raised, if any.
\<close>

record ('s, 'p) run =
  state_after :: 's
  replies :: "ustring list"
  votes_added :: "('p \<times> ustring \<times> int) list"
  printed :: "ustring list"
  raised :: "error option"

definition returns :: "'s \<Rightarrow> ('s, 'p) run" where
  "returns s = \<lparr>state_after = s, replies = [], votes_added = [], printed = [], raised = None\<rparr>"

definition reply :: "'s \<Rightarrow> ustring \<Rightarrow> ('s, 'p) run" where
  "reply s txt = \<lparr>state_after = s, replies = [txt], votes_added = [], printed = [], raised = None\<rparr>"

definition raise :: "'s \<Rightarrow> error \<Rightarrow> ('s, 'p) run" where
  "raise s e = \<lparr>state_after = s, replies = [], votes_added = [], printed = [], raised = Some e\<rparr>"

text \<open>How the search for the poll a command acts on ends.\<close>

datatype 'p resolution = Target 'p | Reply_and_return ustring | Raise error

subsection \<open>\_cast\_to\_int\_or\_error, \_try\_parse\_float and \_parse\_poll\_data\<close>

definition cast_to_int_or_error :: "ustring \<Rightarrow> error + int" where
  "cast_to_int_or_error v =
     (if \<not> isdigit v then Inl (InvalidArgumentsError (v @ u '' is not a valid number'') None)
      else py_int v)"

definition try_parse_float :: "string \<Rightarrow> real \<Rightarrow> real" where
  "try_parse_float v dflt = (case py_float v of Some x \<Rightarrow> x | None \<Rightarrow> dflt)"

definition parse_poll_data :: "'c message \<Rightarrow> 'c poll_data option" where
  "parse_poll_data msg =
     (case re_search RE_POLL_INFO (after_command msg) of
        None \<Rightarrow> None
      | Some m \<Rightarrow>
          (let title = strip (group m 1);
               choices = map strip (split_on CHR '','' (group m 2));
               seconds = (if length m = 3 then try_parse_float (group m 3) 30 else 30)
           in Some \<lparr>pd_channel = channel msg, pd_owner = author msg, pd_title = title,
                     pd_duration_seconds = seconds, pd_choices = choices\<rparr>))"

subsection \<open>cmd\_vote\<close>

text \<open>
  Lines 40 to 58 of the handler: from the count of active polls to the poll the vote is
  for. \<open>choice\<close> is \<open>args[0]\<close>.
\<close>

definition cmd_vote_resolve ::
  "('s, 'p) polls \<Rightarrow> config \<Rightarrow> 's \<Rightarrow> 'c message \<Rightarrow> ustring \<Rightarrow> ustring list \<Rightarrow> 'p resolution"
where
  "cmd_vote_resolve P cfg s msg choice args =
     (let count = get_active_channel_poll_count P s (channel_name msg) in
      if count = 0
      then Reply_and_return (u ''there are NOT any active polls running right now to vote for'')
      else if count = 1
      then (case get_active_channel_polls P s (channel_name msg) of
              [] \<Rightarrow> Raise IndexError
            | poll # _ \<Rightarrow> Target poll)
      else if length args \<noteq> 2
      then Reply_and_return
             (mention msg
              @ u '' there are multiple polls active, please specify the poll id, example: ''
              @ prefix cfg @ u ''vote '' @ choice @ u '' <POLL_ID>'')
      else (case cast_to_int_or_error (args ! 1) of
              Inl e \<Rightarrow> Raise e
            | Inr passed_poll_id \<Rightarrow>
                (case get_channel_poll_by_id P s (channel_name msg) passed_poll_id of
                   None \<Rightarrow>
                     Raise (InvalidArgumentsError
                              (u ''Could not find poll by ID '' @ u (str_int passed_poll_id))
                              (Some Vote))
                 | Some poll \<Rightarrow> Target poll)))"

definition cmd_vote ::
  "('s, 'p) polls \<Rightarrow> config \<Rightarrow> 's \<Rightarrow> 'c message \<Rightarrow> ustring list \<Rightarrow> ('s, 'p) run"
where
  "cmd_vote P cfg s msg args =
     (case args of
        [] \<Rightarrow>
          raise s (InvalidArgumentsError
                     (u ''missing required vote arguments, must provide the id of the choice you want to vote for'')
                     (Some Vote))
      | choice # _ \<Rightarrow>
          (case cmd_vote_resolve P cfg s msg choice args of
             Reply_and_return txt \<Rightarrow> reply s txt
           | Raise e \<Rightarrow> raise s e
           | Target poll \<Rightarrow>
               if \<not> isdigit choice
               then raise s (InvalidArgumentsError (choice @ u '' is not a valid number'')
                              (Some Vote))
               else (case py_int choice of
                       Inl e \<Rightarrow> raise s e
                     | Inr c \<Rightarrow>
                         if \<not> is_valid_vote P s poll c
                         then reply s (u (str_int c) @ u '' is not a valid choice id for poll#''
                                       @ u (str_int (poll_id P s poll)) @ u '', choices are: ''
                                       @ format_choices P s poll)
                         else if has_already_voted P s poll (author msg)
                         then returns s
                         else (let s' = add_vote P s poll (author msg) c
                               in \<lparr>state_after = s', replies = [],
                                   votes_added = [(poll, author msg, c)],
                                   printed = [votes P s' poll], raised = None\<rparr>))))"

subsection \<open>cmd\_list\_polls\<close>

definition dquote :: char where
  "dquote = CHR 0x22"

definition cmd_list_polls ::
  "('s, 'p) polls \<Rightarrow> 's \<Rightarrow> 'c message \<Rightarrow> ustring list \<Rightarrow> ('s, 'p) run"
where
  "cmd_list_polls P s msg args =
     reply s (join (u '' | '')
                (map (\<lambda>poll. u (str_int (poll_id P s poll)) @ u '' -> ''
                              @ u [dquote] @ poll_title P s poll @ u [dquote])
                   (get_active_channel_polls P s (channel_name msg))))"

subsection \<open>cmd\_poll\_info\<close>

text \<open>Lines 89 to 109 of the handler: from the count of active polls to the poll.\<close>

definition cmd_poll_info_resolve ::
  "('s, 'p) polls \<Rightarrow> config \<Rightarrow> 's \<Rightarrow> 'c message \<Rightarrow> ustring list \<Rightarrow> 'p resolution"
where
  "cmd_poll_info_resolve P cfg s msg args =
     (let count = get_active_channel_poll_count P s (channel_name msg) in
      if count = 0
      then Reply_and_return (u ''there are not any polls active right now'')
      else if count > 1 \<and> args = []
      then Raise (InvalidArgumentsError
                    (u ''multiple polls are running, the poll id is required to be passed, example: ''
                     @ prefix cfg @ u ''pollinfo <POLL_ID>'')
                    (Some Pollinfo))
      else if count = 1
      then (case get_active_channel_polls P s (channel_name msg) of
              [] \<Rightarrow> Raise IndexError
            | poll # _ \<Rightarrow> Target poll)
      else (case args of
              [] \<Rightarrow> Raise IndexError
            | a # _ \<Rightarrow>
                if \<not> isdigit a
                then Raise (InvalidArgumentsError (a @ u '' is not valid number'') (Some Pollinfo))
                else (case py_int a of
                        Inl e \<Rightarrow> Raise e
                      | Inr n \<Rightarrow>
                          (case get_channel_poll_by_id P s (channel_name msg) n of
                             None \<Rightarrow>
                               Raise (InvalidArgumentsError
                                        (u ''could not find any poll by ID '' @ a)
                                        (Some Pollinfo))
                           | Some poll \<Rightarrow> Target poll))))"

definition cmd_poll_info ::
  "('s, 'p) polls \<Rightarrow> config \<Rightarrow> 's \<Rightarrow> 'c message \<Rightarrow> ustring list \<Rightarrow> ('s, 'p) run"
where
  "cmd_poll_info P cfg s msg args =
     (case cmd_poll_info_resolve P cfg s msg args of
        Reply_and_return txt \<Rightarrow> reply s txt
      | Raise e \<Rightarrow> raise s e
      | Target poll \<Rightarrow>
          reply s (u ''POLL INFO #'' @ u (str_int (poll_id P s poll)) @ u '' - title: ''
                   @ u [dquote] @ poll_title P s poll @ u [dquote] @ u '' - choices: ''
                   @ format_choices P s poll @ u '' - seconds left: '' @ seconds_left P s poll))"

section \<open>Notions used in the statements\<close>

subsection \<open>Event fan-out\<close>

text \<open>The mods whose hook was awaited, in the order of the log.\<close>

fun hook_calls :: "'a effect list \<Rightarrow> 'a Mod list" where
  "hook_calls [] = []"
| "hook_calls (Hook_awaited m ev args # es) = m # hook_calls es"
| "hook_calls (_ # es) = hook_calls es"

text \<open>
  What one mod adds to the log when its hook raises nothing but instances of
  \<open>Exception\<close>: nothing when it has no hook for the event, the call when the hook
  returns, the call and the printed error when the hook raises.
\<close>

definition hook_effects :: "event \<Rightarrow> 'a list \<Rightarrow> 'a Mod \<Rightarrow> 'a effect list" where
  "hook_effects ev args m =
     (case hooks m ev of
        None \<Rightarrow> []
      | Some h \<Rightarrow>
          (case h args of
             Returns \<Rightarrow> [Hook_awaited m ev args]
           | Raises e \<Rightarrow> [Hook_awaited m ev args, Error_printed (name m) ev e]))"

text \<open>The mod's hook for the event, if it raises, raises an instance of \<open>Exception\<close>.\<close>

definition raises_only_Exception :: "event \<Rightarrow> 'a list \<Rightarrow> 'a Mod \<Rightarrow> bool" where
  "raises_only_Exception ev args m =
     (case hooks m ev of
        None \<Rightarrow> True
      | Some h \<Rightarrow> (case h args of Returns \<Rightarrow> True | Raises e \<Rightarrow> is_Exception e))"

text \<open>Three mods for the examples: one whose hook raises, one whose hook returns, one without hooks.\<close>

definition mod_a :: "nat Mod" where
  "mod_a = \<lparr>name = ''a'', can_register = True, can_unregister = True,
            hooks = (\<lambda>ev. if ev = on_connected then Some (\<lambda>_. Raises (Exception ''boom''))
                          else None)\<rparr>"

definition mod_b :: "nat Mod" where
  "mod_b = \<lparr>name = ''b'', can_register = True, can_unregister = False,
            hooks = (\<lambda>ev. if ev = on_connected then Some (\<lambda>_. Returns) else None)\<rparr>"

definition mod_c :: "nat Mod" where
  "mod_c = \<lparr>name = ''c'', can_register = False, can_unregister = True, hooks = (\<lambda>ev. None)\<rparr>"

subsection \<open>Poll and choice ids\<close>

text \<open>
  A ustring that consists entirely of digits: it is not empty and each character is a
  decimal digit, one of 0 to 9 or one of the digits 0 to 9 of another script.
\<close>

definition only_digits :: "ustring \<Rightarrow> bool" where
  "only_digits s = (s \<noteq> [] \<and> (\<forall>c \<in> set s. unicode_isdecimal c))"

text \<open>
  The kind of outcome of the search for a poll: a poll is the target, the user gets a
  reply, the invalid-arguments error is raised, or another error is.
\<close>

datatype 'p kind = Targets 'p | User_reply | Invalid_arguments | Other_error error

fun kind_of :: "'p resolution \<Rightarrow> 'p kind" where
  "kind_of (Target p) = Targets p"
| "kind_of (Reply_and_return _) = User_reply"
| "kind_of (Raise (InvalidArgumentsError _ _)) = Invalid_arguments"
| "kind_of (Raise e) = Other_error e"

text \<open>One entry of the listing of polls: the id, an arrow, the title in double quotes.\<close>

definition poll_entry :: "('s, 'p) polls \<Rightarrow> 's \<Rightarrow> 'p \<Rightarrow> ustring" where
  "poll_entry P s poll =
     u (str_int (poll_id P s poll)) @ u '' -> '' @ u [dquote] @ poll_title P s poll @ u [dquote]"

subsection \<open>A poll subsystem for the examples\<close>

text \<open>
  Modelled from the spec: the poll subsystem (class \<open>PollData\<close> and the three lookup
  functions) is not part of the sources at hand. For the examples, a poll has an id, a
  title, an ordered list of choices and a mapping from voter to the chosen choice, as in
  the data model of the specification; the state is the list of active polls, a poll
  object is referred to by its id, a choice is valid when it is an index into the list
  of choices, and a voter has voted when the mapping has an entry for the voter.
\<close>

record example_poll =
  p_channel :: ustring
  p_id :: int
  p_title :: ustring
  p_choices :: "ustring list"
  p_seconds_left :: ustring
  p_votes :: "(ustring \<times> int) list"

definition polls_of :: "example_poll list \<Rightarrow> ustring \<Rightarrow> example_poll list" where
  "polls_of s ch = filter (\<lambda>p. p_channel p = ch) s"

definition the_poll :: "example_poll list \<Rightarrow> int \<Rightarrow> example_poll option" where
  "the_poll s i = find (\<lambda>p. p_id p = i) s"

definition simple_polls :: "(example_poll list, int) polls" where
  "simple_polls =
     \<lparr>get_active_channel_polls = (\<lambda>s ch. map p_id (polls_of s ch)),
      get_active_channel_poll_count = (\<lambda>s ch. int (length (polls_of s ch))),
      get_channel_poll_by_id =
        (\<lambda>s ch i. map_option p_id (find (\<lambda>p. p_id p = i) (polls_of s ch))),
      poll_id = (\<lambda>s i. i),
      poll_title = (\<lambda>s i. case the_poll s i of None \<Rightarrow> [] | Some p \<Rightarrow> p_title p),
      seconds_left = (\<lambda>s i. case the_poll s i of None \<Rightarrow> [] | Some p \<Rightarrow> p_seconds_left p),
      votes = (\<lambda>s i. case the_poll s i of None \<Rightarrow> []
                      | Some p \<Rightarrow> join (u '', '') (map fst (p_votes p))),
      format_choices = (\<lambda>s i. case the_poll s i of None \<Rightarrow> []
                               | Some p \<Rightarrow> join (u '', '') (p_choices p)),
      is_valid_vote = (\<lambda>s i c. case the_poll s i of None \<Rightarrow> False
                                | Some p \<Rightarrow> 0 \<le> c \<and> c < int (length (p_choices p))),
      has_already_voted = (\<lambda>s i u. case the_poll s i of None \<Rightarrow> False
                                    | Some p \<Rightarrow> u \<in> set (map fst (p_votes p))),
      add_vote = (\<lambda>s i u c. map (\<lambda>p. if p_id p = i
                                        then p\<lparr>p_votes := p_votes p @ [(u, c)]\<rparr> else p) s)\<rparr>"

text \<open>Two polls of channel \<open>c\<close>; in the second one bob has voted.\<close>

definition lunch :: example_poll where
  "lunch = \<lparr>p_channel = u ''c'', p_id = 1, p_title = u ''lunch'',
            p_choices = [u ''cheese'', u ''pepperoni''], p_seconds_left = u ''12.5'', p_votes = []\<rparr>"

definition dinner :: example_poll where
  "dinner = \<lparr>p_channel = u ''c'', p_id = 2, p_title = u ''dinner'',
             p_choices = [u ''soup'', u ''rice''], p_seconds_left = u ''40.0'',
             p_votes = [(u ''bob'', 1)]\<rparr>"

definition bob :: "unit message" where
  "bob = \<lparr>channel = (), channel_name = u ''c'', author = u ''bob'', mention = u ''@bob'',
          after_command = ''1''\<rparr>"

definition cfg0 :: config where
  "cfg0 = \<lparr>prefix = u ''!''\<rparr>"

subsection \<open>The poll text\<close>

text \<open>
  The text that decides the duration after a closing bracket: the digits and full stops
  that follow the bracket and any whitespace after it.
\<close>

definition duration_text :: "string \<Rightarrow> string" where
  "duration_text r = takeWhile time_char (dropWhile char_isspace r)"

text \<open>
  A text has a bracketed choice list when somewhere in it an opening bracket is followed
  by one or more characters of choices (letters, digits, underscores, whitespace,
  commas) and then a closing bracket.
\<close>

fun has_bracketed_choices :: "string \<Rightarrow> bool" where
  "has_bracketed_choices [] = False"
| "has_bracketed_choices (c # s) =
     ((c = CHR ''['' \<and> takeWhile options_char s \<noteq> []
         \<and> (case dropWhile options_char s of [] \<Rightarrow> False | d # _ \<Rightarrow> d = CHR '']''))
      \<or> has_bracketed_choices s)"

text \<open>
  A text lacks a numeric duration when no closing bracket in it is followed by a number:
  what follows each closing bracket and the whitespace after it is not a number.
\<close>

fun lacks_numeric_duration :: "string \<Rightarrow> bool" where
  "lacks_numeric_duration [] = True"
| "lacks_numeric_duration (c # s) =
     ((c = CHR '']'' \<longrightarrow> py_float (duration_text s) = None) \<and> lacks_numeric_duration s)"

text \<open>The pieces of the pattern from the opening bracket on, and what they match at the start of a text.\<close>

definition bracket_pieces :: "piece list" where
  "bracket_pieces = tl RE_POLL_INFO"

definition bracket_match :: "string \<Rightarrow> match option" where
  "bracket_match s =
     (case s of
        [] \<Rightarrow> None
      | c # s' \<Rightarrow>
          if c = CHR ''['' \<and> takeWhile options_char s' \<noteq> []
          then (case dropWhile options_char s' of
                  [] \<Rightarrow> None
                | d # r \<Rightarrow>
                    if d = CHR '']''
                    then Some [(''options'', takeWhile options_char s'), (''time'', duration_text r)]
                    else None)
          else None)"

text \<open>Three messages for the examples.\<close>

definition no_seconds :: "unit message" where
  "no_seconds = \<lparr>channel = (), channel_name = u ''c'', author = u ''bob'', mention = u ''@bob'',
                 after_command = ''eat pizza [cheese, pepperoni]''\<rparr>"

definition no_brackets :: "unit message" where
  "no_brackets = \<lparr>channel = (), channel_name = u ''c'', author = u ''bob'', mention = u ''@bob'',
                  after_command = ''eat pizza cheese 60''\<rparr>"

definition with_seconds :: "unit message" where
  "with_seconds = \<lparr>channel = (), channel_name = u ''c'', author = u ''bob'', mention = u ''@bob'',
                   after_command = ''eat pizza [cheese, pepperoni] 60''\<rparr>"

section \<open>Properties of the mod registry\<close>

subsection \<open>Dictionary facts\<close>

lemma dict_setitem_fresh: "\<not> dict_contains k d \<Longrightarrow> dict_setitem k v d = d @ [(k, v)]"
  by (induction d) (auto simp: dict_contains_def)

lemma dict_get_append_fresh:
  "\<not> dict_contains k d \<Longrightarrow>
   dict_get (d @ [(k, v)]) k' = (if k' = k then Some v else dict_get d k')"
  by (induction d) (auto simp: dict_contains_def dict_get_def)

lemma dict_delitem_filter: "dict_delitem k d = filter (\<lambda>kv. fst kv \<noteq> k) d"
  by (induction d) auto

lemma dict_contains_delitem:
  "dict_contains k' (dict_delitem k d) = (k' \<noteq> k \<and> dict_contains k' d)"
  unfolding dict_delitem_filter dict_contains_def by force

lemma dict_get_delitem: "k' \<noteq> k \<Longrightarrow> dict_get (dict_delitem k d) k' = dict_get d k'"
  by (induction d) (auto simp: dict_get_def)

subsection \<open>Registration\<close>

text \<open>
  Claim C1. If the name of the mod is already a key of the registry, or the mod cannot
  be registered, \<open>register_mod\<close> returns False and the state is the one before: the
  mapping is unchanged and the register callback has not been called. Otherwise it
  returns True, the mod is the new last entry of the mapping under its name, every
  other key maps to what it did, and the register callback has been called once.
\<close>

theorem register_mod_outcome:
  "(dict_contains (name m) (mods st) \<or> \<not> can_register m \<longrightarrow>
      register_mod m st = (False, st))
   \<and> (\<not> dict_contains (name m) (mods st) \<and> can_register m \<longrightarrow>
        (\<exists>st'. register_mod m st = (True, st')
           \<and> mods st' = mods st @ [(name m, m)]
           \<and> dict_get (mods st') (name m) = Some m
           \<and> (\<forall>k. k \<noteq> name m \<longrightarrow> dict_get (mods st') k = dict_get (mods st) k)
           \<and> log st' = log st @ [Called_register m]))"
  by (simp add: register_mod_def dict_setitem_fresh dict_get_append_fresh)

theorem register_mod_outcome_witness:
  "register_mod mod_a \<lparr>mods = [(''a'', mod_b)], log = []\<rparr>
     = (False, \<lparr>mods = [(''a'', mod_b)], log = []\<rparr>)
   \<and> register_mod mod_c \<lparr>mods = [], log = []\<rparr> = (False, \<lparr>mods = [], log = []\<rparr>)
   \<and> register_mod mod_a \<lparr>mods = [(''b'', mod_b)], log = []\<rparr>
       = (True, \<lparr>mods = [(''b'', mod_b), (''a'', mod_a)], log = [Called_register mod_a]\<rparr>)"
  using register_mod_outcome [of mod_a "\<lparr>mods = [(''a'', mod_b)], log = []\<rparr>"]
        register_mod_outcome [of mod_c "\<lparr>mods = [], log = []\<rparr>"]
        register_mod_outcome [of mod_a "\<lparr>mods = [(''b'', mod_b)], log = []\<rparr>"]
  by (auto simp: dict_contains_def mod_a_def mod_b_def mod_c_def)

text \<open>
  Claim C2. If the mod cannot be unregistered, \<open>unregister_mod\<close> returns False and the
  state is the one before. If it can and its name is a key, the entry is removed, the
  other entries stay as they were and in their order, the unregister callback of the
  mod has been called once, and the result is True. If it can and its name is not a
  key, the result is False and the state is the one before.
\<close>

theorem unregister_mod_outcome:
  "(\<not> can_unregister m \<longrightarrow> unregister_mod m st = (False, st))
   \<and> (can_unregister m \<and> dict_contains (name m) (mods st) \<longrightarrow>
        (\<exists>st'. unregister_mod m st = (True, st')
           \<and> \<not> dict_contains (name m) (mods st')
           \<and> mods st' = filter (\<lambda>kv. fst kv \<noteq> name m) (mods st)
           \<and> (\<forall>k. k \<noteq> name m \<longrightarrow> dict_get (mods st') k = dict_get (mods st) k)
           \<and> log st' = log st @ [Called_unregister m]))
   \<and> (can_unregister m \<and> \<not> dict_contains (name m) (mods st) \<longrightarrow>
        unregister_mod m st = (False, st))"
proof -
  have a: "dict_delitem (name m) (mods st) = filter (\<lambda>kv. fst kv \<noteq> name m) (mods st)"
    by (rule dict_delitem_filter)
  show ?thesis
    by (simp add: unregister_mod_def a [symmetric] dict_contains_delitem dict_get_delitem)
qed

theorem unregister_mod_outcome_witness:
  "unregister_mod mod_b \<lparr>mods = [(''b'', mod_b)], log = []\<rparr>
     = (False, \<lparr>mods = [(''b'', mod_b)], log = []\<rparr>)
   \<and> unregister_mod mod_a \<lparr>mods = [(''b'', mod_b), (''a'', mod_a)], log = []\<rparr>
       = (True, \<lparr>mods = [(''b'', mod_b)], log = [Called_unregister mod_a]\<rparr>)
   \<and> unregister_mod mod_a \<lparr>mods = [(''b'', mod_b)], log = []\<rparr>
       = (False, \<lparr>mods = [(''b'', mod_b)], log = []\<rparr>)"
  using unregister_mod_outcome [of mod_b "\<lparr>mods = [(''b'', mod_b)], log = []\<rparr>"]
        unregister_mod_outcome [of mod_a "\<lparr>mods = [(''b'', mod_b), (''a'', mod_a)], log = []\<rparr>"]
        unregister_mod_outcome [of mod_a "\<lparr>mods = [(''b'', mod_b)], log = []\<rparr>"]
  by (auto simp: dict_contains_def mod_a_def mod_b_def)

subsection \<open>Event fan-out\<close>

lemma trigger_loop_contained:
  "list_all (raises_only_Exception ev args) ms \<Longrightarrow>
   trigger_loop ev args ms lg = (lg @ concat (map (hook_effects ev args) ms), None)"
  by (induction ms arbitrary: lg)
     (auto simp: raises_only_Exception_def hook_effects_def
           split: option.splits outcome.splits)

lemma hook_calls_append: "hook_calls (xs @ ys) = hook_calls xs @ hook_calls ys"
  by (induction xs rule: hook_calls.induct) auto

lemma hook_calls_effects:
  "hook_calls (concat (map (hook_effects ev args) ms)) = filter (\<lambda>m. hooks m ev \<noteq> None) ms"
  by (induction ms)
     (auto simp: hook_calls_append hook_effects_def split: option.splits outcome.splits)

text \<open>
  An object raised by a hook that is not an instance of \<open>Exception\<close> is not caught: it
  leaves the loop, and the hooks of the mods that follow are not awaited.
\<close>

lemma trigger_loop_BaseException_leaves:
  "hooks m ev = Some h \<Longrightarrow> h args = Raises (BaseException_only x) \<Longrightarrow>
   trigger_loop ev args (m # ms) lg
     = (lg @ [Hook_awaited m ev args], Some (BaseException_only x))"
  by simp

text \<open>
  Claim C3. For every registry and every event, when the hooks raise exceptions (that
  is, instances of \<open>Exception\<close>, the class the handler names), \<open>trigger_mod_event\<close>
  returns without an exception leaving it, however many hooks raise; the registry is
  left as it was; the log grows by the effects of each mod in iteration order, a raising
  hook adding its call and the printed error; the hooks awaited are those of all the
  mods that have one, each once and in iteration order; and a mod without a hook for
  the event adds nothing.
\<close>

theorem trigger_mod_event_contains_exceptions:
  assumes "list_all (raises_only_Exception ev args) (dict_values (mods st))"
  shows "\<exists>new. trigger_mod_event ev args st = (st\<lparr>log := log st @ new\<rparr>, None)
           \<and> new = concat (map (hook_effects ev args) (dict_values (mods st)))
           \<and> hook_calls new = filter (\<lambda>m. hooks m ev \<noteq> None) (dict_values (mods st))"
  using assms by (simp add: trigger_mod_event_def trigger_loop_contained hook_calls_effects)

theorem trigger_mod_event_contains_exceptions_witness:
  "list_all (raises_only_Exception on_connected [0])
     (dict_values [(''a'', mod_a), (''c'', mod_c), (''b'', mod_b)])
   \<and> trigger_mod_event on_connected [0]
        \<lparr>mods = [(''a'', mod_a), (''c'', mod_c), (''b'', mod_b)], log = []\<rparr>
     = (\<lparr>mods = [(''a'', mod_a), (''c'', mod_c), (''b'', mod_b)],
         log = [Hook_awaited mod_a on_connected [0],
                Error_printed ''a'' on_connected (Exception ''boom''),
                Hook_awaited mod_b on_connected [0]]\<rparr>, None)"
proof -
  have h: "list_all (raises_only_Exception on_connected [0])
             (dict_values [(''a'', mod_a), (''c'', mod_c), (''b'', mod_b)])"
    by (simp add: raises_only_Exception_def dict_values_def mod_a_def mod_b_def mod_c_def)
  from trigger_mod_event_contains_exceptions
         [of on_connected "[0]" "\<lparr>mods = [(''a'', mod_a), (''c'', mod_c), (''b'', mod_b)], log = []\<rparr>"] h
  show ?thesis
    by (simp add: hook_effects_def dict_values_def mod_a_def mod_b_def mod_c_def)
qed

section \<open>Properties of the poll commands\<close>

subsection \<open>Digits and the conversion to an integer\<close>

lemma u_append: "u (a @ b) = u a @ u b"
  by (simp add: u_def)

lemma in_ranges_Cons:
  "in_ranges ((lo, hi) # rs) c = ((lo \<le> c \<and> c \<le> hi) \<or> in_ranges rs c)"
  by (simp add: in_ranges_def)

lemma in_ranges_append: "in_ranges (rs @ ts) c = (in_ranges rs c \<or> in_ranges ts c)"
  by (simp add: in_ranges_def)

text \<open>Two lists of ranges have no code point in common.\<close>

lemma ranges_apart:
  assumes "list_all (\<lambda>(lo, hi). list_all (\<lambda>(a, b). hi < a \<or> b < lo) ws) rs"
      and "in_ranges rs c"
  shows "\<not> in_ranges ws c"
proof
  assume "in_ranges ws c"
  then obtain a b where w: "(a, b) \<in> set ws" "a \<le> c" "c \<le> b"
    by (auto simp: in_ranges_def list_ex_iff)
  from assms(2) obtain lo hi where r: "(lo, hi) \<in> set rs" "lo \<le> c" "c \<le> hi"
    by (auto simp: in_ranges_def list_ex_iff)
  from assms(1) r(1) w(1) have "hi < a \<or> b < lo"
    by (auto simp: list_all_iff)
  with w r show False by auto
qed

text \<open>The runs of decimal digits as ranges.\<close>

lemma unicode_isdecimal_ranges:
  "unicode_isdecimal c = in_ranges (map (\<lambda>z. (z, z + 9)) decimal_zeros) c"
  by (auto simp: unicode_isdecimal_def unicode_decimal_def in_ranges_def find_None_iff
        list_ex_iff)

lemma unicode_isdigit_ranges:
  "unicode_isdigit c = in_ranges (map (\<lambda>z. (z, z + 9)) decimal_zeros @ other_digits) c"
  by (simp add: unicode_isdigit_def unicode_isdecimal_ranges in_ranges_append)

lemma digits_apart_from_signs_and_spaces:
  "list_all (\<lambda>(lo, hi). list_all (\<lambda>(a, b). hi < a \<or> b < lo)
               (int_spaces @ [(code_point CHR ''+'', code_point CHR ''+''), (code_point CHR ''-'', code_point CHR ''-''),
                              (code_point CHR ''_'', code_point CHR ''_'')]))
     (map (\<lambda>z. (z, z + 9)) decimal_zeros @ other_digits)"
  by code_simp

lemma decimal_isdigit: "unicode_isdecimal c \<Longrightarrow> unicode_isdigit c"
  by (simp add: unicode_isdigit_def)

lemma digit_not_space: "unicode_isdigit c \<Longrightarrow> \<not> int_isspace c"
  using ranges_apart [OF digits_apart_from_signs_and_spaces, of c]
  by (simp add: unicode_isdigit_ranges int_isspace_def in_ranges_append)

lemma digit_not_sign:
  "unicode_isdigit c \<Longrightarrow> c \<noteq> code_point CHR ''-'' \<and> c \<noteq> code_point CHR ''+'' \<and> c \<noteq> code_point CHR ''_''"
  using ranges_apart [OF digits_apart_from_signs_and_spaces, of c]
  by (auto simp: unicode_isdigit_ranges in_ranges_append in_ranges_Cons)

lemma int_digits_ok_decimal: "s \<noteq> [] \<Longrightarrow> list_all unicode_isdecimal s \<Longrightarrow> int_digits_ok s"
proof (induction s rule: int_digits_ok.induct)
  case (3 c d r)
  then show ?case using digit_not_sign [of d] decimal_isdigit [of d] by auto
qed auto

lemma int_digits_ok_chars:
  "int_digits_ok s \<Longrightarrow> list_all (\<lambda>c. unicode_isdecimal c \<or> c = code_point CHR ''_'') s"
  by (induction s rule: int_digits_ok.induct) (auto split: if_splits)

lemma strip_digits:
  assumes "s \<noteq> []" "list_all unicode_isdigit s"
  shows "rev (dropWhile int_isspace (rev (dropWhile int_isspace s))) = s"
proof -
  have a: "dropWhile int_isspace s = s"
    using assms by (cases s) (auto simp: digit_not_space)
  have "rev s \<noteq> []" "list_all unicode_isdigit (rev s)" using assms by (auto simp: list_all_iff)
  then have "dropWhile int_isspace (rev s) = rev s"
    by (cases "rev s") (auto simp: digit_not_space)
  with a show ?thesis by simp
qed

lemma py_int_isdigit:
  assumes "isdigit s"
  shows "py_int s = int_unsigned s"
proof -
  from assms have ne: "s \<noteq> []" and all: "list_all unicode_isdigit s" by (auto simp: isdigit_def)
  then obtain c b where s: "s = c # b" by (cases s) auto
  with all have "unicode_isdigit c" by simp
  then have "c \<noteq> code_point CHR ''-''" "c \<noteq> code_point CHR ''+''" using digit_not_sign by auto
  then show ?thesis
    unfolding py_int_def strip_digits [OF ne all] by (simp add: s)
qed

lemma filter_underscore_decimal:
  "list_all unicode_isdecimal s \<Longrightarrow> filter (\<lambda>c. c \<noteq> code_point CHR ''_'') s = s"
  using digit_not_sign decimal_isdigit by (induction s) auto

lemma only_digits_alt: "only_digits s \<longleftrightarrow> s \<noteq> [] \<and> list_all unicode_isdecimal s"
  by (simp add: only_digits_def list_all_iff)

lemma only_digits_isdigit: "only_digits s \<Longrightarrow> isdigit s"
  by (auto simp: only_digits_alt isdigit_def list_all_iff decimal_isdigit)

lemma py_int_only_digits: "only_digits s \<Longrightarrow> py_int s = Inr (int (int_value s))"
  by (simp add: py_int_isdigit only_digits_isdigit int_unsigned_def)
     (simp add: only_digits_alt int_digits_ok_decimal filter_underscore_decimal)

lemma py_int_isdigit_not_decimal:
  assumes "isdigit s" "\<not> only_digits s"
  shows "py_int s = Inl ValueError"
proof -
  from assms obtain c where c: "c \<in> set s" "\<not> unicode_isdecimal c" "unicode_isdigit c"
    by (auto simp: only_digits_alt isdigit_def list_all_iff)
  then have "c \<noteq> code_point CHR ''_''" using digit_not_sign by auto
  with c have "\<not> int_digits_ok s"
    using int_digits_ok_chars [of s] by (auto simp: list_all_iff)
  then show ?thesis using assms(1) by (simp add: py_int_isdigit int_unsigned_def)
qed

lemma cast_only_digits: "only_digits v \<Longrightarrow> cast_to_int_or_error v = Inr (int (int_value v))"
  by (simp add: cast_to_int_or_error_def only_digits_isdigit py_int_only_digits)

lemma cast_not_digits:
  "\<not> only_digits v \<Longrightarrow>
   cast_to_int_or_error v =
     (if isdigit v then Inl ValueError
      else Inl (InvalidArgumentsError (v @ u '' is not a valid number'') None))"
  by (simp add: cast_to_int_or_error_def py_int_isdigit_not_decimal)

lemma not_isdigit_examples: "\<not> isdigit (u ''-1'')" "\<not> isdigit (u ''1.5'')"
  by code_simp+

text \<open>
  Among the code points below U+0660, which include ASCII and Latin-1, the decimal
  digits are the ten characters 0 to 9.
\<close>

lemma zeros_beyond_ascii: "list_all (\<lambda>z. z = 0x30 \<or> 0x660 \<le> z) decimal_zeros"
  by code_simp

lemma unicode_isdecimal_ascii:
  assumes "c < 0x660"
  shows "unicode_isdecimal c \<longleftrightarrow> 0x30 \<le> c \<and> c \<le> 0x39"
proof
  assume "unicode_isdecimal c"
  then obtain z where z: "z \<in> set decimal_zeros" "z \<le> c" "c \<le> z + 9"
    by (auto simp: unicode_isdecimal_ranges in_ranges_def list_ex_iff)
  with zeros_beyond_ascii have "z = 0x30 \<or> 0x660 \<le> z" by (auto simp: list_all_iff)
  with z assms show "0x30 \<le> c \<and> c \<le> 0x39" by auto
next
  assume "0x30 \<le> c \<and> c \<le> 0x39"
  moreover have "0x30 \<in> set decimal_zeros" by (simp add: decimal_zeros_def)
  ultimately show "unicode_isdecimal c"
    by (auto simp: unicode_isdecimal_ranges in_ranges_def list_ex_iff intro!: bexI [of _ "0x30"])
qed

lemma only_digits_ascii:
  assumes "\<forall>c \<in> set v. c < 0x660"
  shows "only_digits v \<longleftrightarrow> v \<noteq> [] \<and> (\<forall>c \<in> set v. 0x30 \<le> c \<and> c \<le> 0x39)"
  using assms by (auto simp: only_digits_def unicode_isdecimal_ascii)

lemmas fixture = simple_polls_def polls_of_def the_poll_def lunch_def dinner_def bob_def cfg0_def

subsection \<open>The vote handler once the poll is found\<close>

lemma cmd_vote_Target:
  "cmd_vote_resolve P cfg s msg choice (choice # rest) = Target poll \<Longrightarrow>
   cmd_vote P cfg s msg (choice # rest) =
     (if \<not> isdigit choice
      then raise s (InvalidArgumentsError (choice @ u '' is not a valid number'') (Some Vote))
      else (case py_int choice of
              Inl e \<Rightarrow> raise s e
            | Inr c \<Rightarrow>
                if \<not> is_valid_vote P s poll c
                then reply s (u (str_int c) @ u '' is not a valid choice id for poll#''
                              @ u (str_int (poll_id P s poll)) @ u '', choices are: ''
                              @ format_choices P s poll)
                else if has_already_voted P s poll (author msg)
                then returns s
                else \<lparr>state_after = add_vote P s poll (author msg) c, replies = [],
                      votes_added = [(poll, author msg, c)],
                      printed = [votes P (add_vote P s poll (author msg) c) poll],
                      raised = None\<rparr>))"
  by (simp add: cmd_vote_def Let_def split: sum.splits)

lemma cmd_vote_choice_accepted:
  assumes "cmd_vote_resolve P cfg s msg choice (choice # rest) = Target poll"
  shows "raised (cmd_vote P cfg s msg (choice # rest)) = None \<longleftrightarrow> only_digits choice"
proof (cases "only_digits choice")
  case True
  then show ?thesis
    by (simp add: cmd_vote_Target [OF assms] only_digits_isdigit py_int_only_digits
          reply_def returns_def)
next
  case False
  then show ?thesis
    by (cases "isdigit choice")
       (simp_all add: cmd_vote_Target [OF assms] py_int_isdigit_not_decimal raise_def)
qed

lemma cmd_vote_choice_rejected:
  assumes "cmd_vote_resolve P cfg s msg choice (choice # rest) = Target poll"
      and "\<not> isdigit choice"
  shows "cmd_vote P cfg s msg (choice # rest)
           = raise s (InvalidArgumentsError (choice @ u '' is not a valid number'') (Some Vote))"
  using assms(2) by (simp add: cmd_vote_Target [OF assms(1)])

lemma vote_resolve_poll_id:
  assumes "get_active_channel_poll_count P s (channel_name msg) \<noteq> 0"
      and "get_active_channel_poll_count P s (channel_name msg) \<noteq> 1"
  shows "cmd_vote_resolve P cfg s msg choice [choice, v] =
           (case cast_to_int_or_error v of
              Inl e \<Rightarrow> Raise e
            | Inr n \<Rightarrow>
                (case get_channel_poll_by_id P s (channel_name msg) n of
                   None \<Rightarrow> Raise (InvalidArgumentsError
                                     (u ''Could not find poll by ID '' @ u (str_int n)) (Some Vote))
                 | Some poll \<Rightarrow> Target poll))"
  using assms by (simp add: cmd_vote_resolve_def Let_def)

lemma poll_info_resolve_poll_id:
  assumes "get_active_channel_poll_count P s (channel_name msg) \<noteq> 0"
      and "get_active_channel_poll_count P s (channel_name msg) \<noteq> 1"
  shows "cmd_poll_info_resolve P cfg s msg (v # rest) =
           (if \<not> isdigit v
            then Raise (InvalidArgumentsError (v @ u '' is not valid number'') (Some Pollinfo))
            else (case py_int v of
                    Inl e \<Rightarrow> Raise e
                  | Inr n \<Rightarrow>
                      (case get_channel_poll_by_id P s (channel_name msg) n of
                         None \<Rightarrow> Raise (InvalidArgumentsError
                                           (u ''could not find any poll by ID '' @ v)
                                           (Some Pollinfo))
                       | Some poll \<Rightarrow> Target poll)))"
  using assms by (simp add: cmd_poll_info_resolve_def Let_def)

text \<open>
  Claim C4. A string given as a poll id or as a choice id is accepted and converted to
  an integer exactly when it consists entirely of digit characters: it is not empty and
  every character is a decimal digit. The decimal digits are the characters 0 to 9 and
  the decimal digits of the other scripts (ARABIC-INDIC DIGIT THREE, U+0663, is one and
  stands for 3); among the characters below U+0660, which include ASCII and Latin-1,
  they are exactly 0 to 9. The integer is the decimal value of the string. This holds
  for \<open>_cast_to_int_or_error\<close>, for the choice id of the vote handler (the handler raises
  no error exactly for such a choice, once the poll is found), and for the poll id of
  the vote handler and of the poll-info handler when the count of active polls is
  neither 0 nor 1: a string of digits goes to the lookup by id as an integer, any other
  string ends the handler with an error. The strings \<open>-1\<close> and \<open>1.5\<close> are
  rejected with the invalid-arguments error at each of these places. A string that has
  a character such as SUPERSCRIPT TWO, U+00B2, and otherwise decimal digits is not
  accepted either: it passes \<open>isdigit\<close> and \<open>int\<close> then refuses it with a ValueError.
\<close>

theorem ids_accepted_iff_digits:
  "((\<exists>n. cast_to_int_or_error v = Inr n) \<longleftrightarrow> only_digits v)
   \<and> (only_digits v \<longrightarrow> cast_to_int_or_error v = Inr (int (int_value v)))
   \<and> ((\<forall>c \<in> set v. c < 0x660) \<longrightarrow>
        (only_digits v \<longleftrightarrow> v \<noteq> [] \<and> (\<forall>c \<in> set v. 0x30 \<le> c \<and> c \<le> 0x39)))
   \<and> cast_to_int_or_error (u ''-1'') = Inl (InvalidArgumentsError (u ''-1 is not a valid number'') None)
   \<and> cast_to_int_or_error (u ''1.5'') = Inl (InvalidArgumentsError (u ''1.5 is not a valid number'') None)
   \<and> (cmd_vote_resolve P cfg s msg v (v # rest) = Target poll \<longrightarrow>
        (raised (cmd_vote P cfg s msg (v # rest)) = None \<longleftrightarrow> only_digits v)
        \<and> (v = u ''-1'' \<or> v = u ''1.5'' \<longrightarrow>
             cmd_vote P cfg s msg (v # rest)
               = raise s (InvalidArgumentsError (v @ u '' is not a valid number'') (Some Vote))))
   \<and> (get_active_channel_poll_count P s (channel_name msg) \<noteq> 0
        \<and> get_active_channel_poll_count P s (channel_name msg) \<noteq> 1 \<longrightarrow>
        (only_digits v \<longrightarrow>
           cmd_vote_resolve P cfg s msg choice [choice, v] =
             (case get_channel_poll_by_id P s (channel_name msg) (int (int_value v)) of
                None \<Rightarrow> Raise (InvalidArgumentsError
                                  (u ''Could not find poll by ID '' @ u (str_int (int (int_value v))))
                                  (Some Vote))
              | Some p \<Rightarrow> Target p)
           \<and> cmd_poll_info_resolve P cfg s msg (v # rest) =
               (case get_channel_poll_by_id P s (channel_name msg) (int (int_value v)) of
                  None \<Rightarrow> Raise (InvalidArgumentsError
                                    (u ''could not find any poll by ID '' @ v) (Some Pollinfo))
                | Some p \<Rightarrow> Target p))
        \<and> (\<not> only_digits v \<longrightarrow>
             cmd_vote_resolve P cfg s msg choice [choice, v] =
               (if isdigit v then Raise ValueError
                else Raise (InvalidArgumentsError (v @ u '' is not a valid number'') None))
             \<and> cmd_poll_info_resolve P cfg s msg (v # rest) =
                 (if isdigit v then Raise ValueError
                  else Raise (InvalidArgumentsError (v @ u '' is not valid number'')
                                (Some Pollinfo))))
        \<and> (v = u ''-1'' \<or> v = u ''1.5'' \<longrightarrow>
             cmd_vote_resolve P cfg s msg choice [choice, v]
               = Raise (InvalidArgumentsError (v @ u '' is not a valid number'') None)
             \<and> cmd_poll_info_resolve P cfg s msg (v # rest)
                 = Raise (InvalidArgumentsError (v @ u '' is not valid number'') (Some Pollinfo))))"
proof -
  have a: "(\<exists>n. cast_to_int_or_error v = Inr n) \<longleftrightarrow> only_digits v"
    by (cases "only_digits v") (simp_all add: cast_only_digits cast_not_digits)
  have b: "cast_to_int_or_error (u ''-1'') = Inl (InvalidArgumentsError (u ''-1 is not a valid number'') None)"
          "cast_to_int_or_error (u ''1.5'') = Inl (InvalidArgumentsError (u ''1.5 is not a valid number'') None)"
    by (simp_all add: cast_to_int_or_error_def not_isdigit_examples u_append [symmetric])
  have c: "cmd_vote_resolve P cfg s msg v (v # rest) = Target poll \<longrightarrow>
        (raised (cmd_vote P cfg s msg (v # rest)) = None \<longleftrightarrow> only_digits v)
        \<and> (v = u ''-1'' \<or> v = u ''1.5'' \<longrightarrow>
             cmd_vote P cfg s msg (v # rest)
               = raise s (InvalidArgumentsError (v @ u '' is not a valid number'') (Some Vote)))"
    using cmd_vote_choice_accepted cmd_vote_choice_rejected not_isdigit_examples by metis
  have d: "only_digits v \<Longrightarrow> isdigit v" by (rule only_digits_isdigit)
  have e: "v = u ''-1'' \<or> v = u ''1.5'' \<Longrightarrow> \<not> isdigit v \<and> \<not> only_digits v"
    using not_isdigit_examples only_digits_isdigit by auto
  show ?thesis
    apply (intro conjI impI)
    subgoal by (rule a)
    subgoal by (rule cast_only_digits)
    subgoal by (rule only_digits_ascii)
    subgoal by (rule b)
    subgoal by (rule b)
    subgoal using c by blast
    subgoal using c by blast
    subgoal by (simp add: vote_resolve_poll_id cast_only_digits)
    subgoal by (simp add: poll_info_resolve_poll_id d py_int_only_digits)
    subgoal by (simp add: vote_resolve_poll_id cast_not_digits)
    subgoal by (simp add: poll_info_resolve_poll_id py_int_isdigit_not_decimal)
    subgoal using e by (simp add: vote_resolve_poll_id cast_not_digits)
    subgoal using e by (simp add: poll_info_resolve_poll_id)
    done
qed

theorem ids_accepted_iff_digits_witness:
  "only_digits (u ''2'') \<and> \<not> only_digits (u ''-1'')
   \<and> cast_to_int_or_error (u ''2'') = Inr 2
   \<and> only_digits [0x663] \<and> cast_to_int_or_error [0x663] = Inr 3
   \<and> \<not> only_digits [0xB2]
   \<and> cmd_vote_resolve simple_polls cfg0 [lunch, dinner] bob (u ''1'') [u ''1'', [0xB2]]
       = Raise ValueError
   \<and> cmd_vote_resolve simple_polls cfg0 [lunch, dinner] bob (u ''2'') [u ''2'', u ''1''] = Target 1
   \<and> raised (cmd_vote simple_polls cfg0 [lunch, dinner] bob [u ''2'', u ''1'']) = None
   \<and> cmd_vote_resolve simple_polls cfg0 [lunch, dinner] bob (u ''1'') [u ''1'', u ''2''] = Target 2
   \<and> cmd_poll_info_resolve simple_polls cfg0 [lunch, dinner] bob [u ''2''] = Target 2
   \<and> cmd_vote_resolve simple_polls cfg0 [lunch, dinner] bob (u ''-1'') [u ''-1'', u ''2''] = Target 2
   \<and> cmd_vote simple_polls cfg0 [lunch, dinner] bob [u ''-1'', u ''2'']
       = raise [lunch, dinner] (InvalidArgumentsError (u ''-1 is not a valid number'') (Some Vote))
   \<and> cmd_vote_resolve simple_polls cfg0 [lunch, dinner] bob (u ''1'') [u ''1'', u ''-1'']
       = Raise (InvalidArgumentsError (u ''-1 is not a valid number'') None)
   \<and> cmd_poll_info_resolve simple_polls cfg0 [lunch, dinner] bob [u ''-1'']
       = Raise (InvalidArgumentsError (u ''-1 is not valid number'') (Some Pollinfo))
   \<and> (only_digits [0x32, 0x41] \<longleftrightarrow> False)"
proof -
  have d2: "only_digits (u ''2'')" by code_simp
  have dm: "\<not> only_digits (u ''-1'')" by code_simp
  have da: "only_digits [0x663]" by code_simp
  have ds: "\<not> only_digits [0xB2]" by code_simp
  have sd: "isdigit [0xB2]" by code_simp
  have v: "int_value (u ''2'') = 2" "int_value [0x663] = 3" by code_simp+
  have n: "get_active_channel_poll_count simple_polls [lunch, dinner] (channel_name bob) \<noteq> 0
           \<and> get_active_channel_poll_count simple_polls [lunch, dinner] (channel_name bob) \<noteq> 1"
    by (simp add: fixture)
  have l: "get_channel_poll_by_id simple_polls [lunch, dinner] (channel_name bob) 2 = Some 2"
    by (simp add: fixture)
  have r1: "cmd_vote_resolve simple_polls cfg0 [lunch, dinner] bob (u ''2'') [u ''2'', u ''1''] = Target 1"
    by code_simp
  have r2: "cmd_vote_resolve simple_polls cfg0 [lunch, dinner] bob (u ''-1'') [u ''-1'', u ''2''] = Target 2"
    by code_simp
  have m: "u ''-1'' = u ''-1'' \<or> u ''-1'' = u ''1.5''" by simp
  have low: "\<forall>c \<in> set [0x32, 0x41 :: int]. c < 0x660" by simp
  note two = ids_accepted_iff_digits [where v = "u ''2''" and P = simple_polls and cfg = cfg0
         and s = "[lunch, dinner]" and msg = bob and rest = "[u ''1'']" and poll = 1
         and choice = "u ''1''"]
  note two_only = ids_accepted_iff_digits [where v = "u ''2''" and P = simple_polls and cfg = cfg0
         and s = "[lunch, dinner]" and msg = bob and rest = "[]" and poll = 2
         and choice = "u ''1''"]
  note minus = ids_accepted_iff_digits [where v = "u ''-1''" and P = simple_polls and cfg = cfg0
         and s = "[lunch, dinner]" and msg = bob and rest = "[u ''2'']" and poll = 2
         and choice = "u ''1''"]
  note minus_only = ids_accepted_iff_digits [where v = "u ''-1''" and P = simple_polls
         and cfg = cfg0 and s = "[lunch, dinner]" and msg = bob and rest = "[]" and poll = 2
         and choice = "u ''1''"]
  note arabic = ids_accepted_iff_digits [where v = "[0x663]" and P = simple_polls and cfg = cfg0
         and s = "[lunch, dinner]" and msg = bob and rest = "[]" and poll = 2
         and choice = "u ''1''"]
  note super = ids_accepted_iff_digits [where v = "[0xB2]" and P = simple_polls and cfg = cfg0
         and s = "[lunch, dinner]" and msg = bob and rest = "[]" and poll = 2
         and choice = "u ''1''"]
  note letter = ids_accepted_iff_digits [where v = "[0x32, 0x41]" and P = simple_polls
         and cfg = cfg0 and s = "[lunch, dinner]" and msg = bob and rest = "[]" and poll = 2
         and choice = "u ''1''"]
  note conv = conjunct2 [THEN conjunct1, THEN mp]
  note below = conjunct2 [THEN conjunct2, THEN conjunct1, THEN mp]
  note choice = conjunct2 [THEN conjunct2, THEN conjunct2, THEN conjunct2, THEN conjunct2,
                           THEN conjunct1, THEN mp]
  note ids = conjunct2 [THEN conjunct2, THEN conjunct2, THEN conjunct2, THEN conjunct2,
                        THEN conjunct2, THEN mp]
  have c2: "cast_to_int_or_error (u ''2'') = Inr 2"
    using two [THEN conv, OF d2] by (simp add: v)
  have ca: "cast_to_int_or_error [0x663] = Inr 3"
    using arabic [THEN conv, OF da] by (simp add: v)
  have cs: "cmd_vote_resolve simple_polls cfg0 [lunch, dinner] bob (u ''1'') [u ''1'', [0xB2]]
       = Raise ValueError"
    using super [THEN ids, OF n, THEN conjunct2, THEN conjunct1, THEN mp, OF ds, THEN conjunct1]
    by (simp add: sd)
  have e2: "raised (cmd_vote simple_polls cfg0 [lunch, dinner] bob [u ''2'', u ''1'']) = None"
    using two [THEN choice, OF r1, THEN conjunct1] d2 by simp
  have f1: "cmd_vote_resolve simple_polls cfg0 [lunch, dinner] bob (u ''1'') [u ''1'', u ''2''] = Target 2"
    using two [THEN ids, OF n, THEN conjunct1, THEN mp, OF d2, THEN conjunct1] by (simp add: v l)
  have f2: "cmd_poll_info_resolve simple_polls cfg0 [lunch, dinner] bob [u ''2''] = Target 2"
    using two_only [THEN ids, OF n, THEN conjunct1, THEN mp, OF d2, THEN conjunct2]
    by (simp add: v l)
  have g1: "cmd_vote simple_polls cfg0 [lunch, dinner] bob [u ''-1'', u ''2'']
       = raise [lunch, dinner] (InvalidArgumentsError (u ''-1 is not a valid number'') (Some Vote))"
    using minus [THEN choice, OF r2, THEN conjunct2, THEN mp, OF m]
    by (simp add: u_append [symmetric])
  have g2: "cmd_vote_resolve simple_polls cfg0 [lunch, dinner] bob (u ''1'') [u ''1'', u ''-1'']
       = Raise (InvalidArgumentsError (u ''-1 is not a valid number'') None)"
    using minus [THEN ids, OF n, THEN conjunct2, THEN conjunct2, THEN mp, OF m, THEN conjunct1]
    by (simp add: u_append [symmetric])
  have g3: "cmd_poll_info_resolve simple_polls cfg0 [lunch, dinner] bob [u ''-1'']
       = Raise (InvalidArgumentsError (u ''-1 is not valid number'') (Some Pollinfo))"
    using minus_only [THEN ids, OF n, THEN conjunct2, THEN conjunct2, THEN mp, OF m, THEN conjunct2]
    by (simp add: u_append [symmetric])
  have h: "only_digits [0x32, 0x41] \<longleftrightarrow> False"
    using letter [THEN below, OF low] by simp
  from d2 dm c2 da ca ds cs r1 e2 f1 f2 r2 g1 g2 g3 h show ?thesis by (intro conjI)
qed

subsection \<open>The vote handler with several active polls\<close>

text \<open>
  Claim C5, as stated, fails where the poll id is absent: with two active polls and the
  choice as the only argument, the vote handler replies to the user with the request to
  specify the poll id and returns; no error is raised.
\<close>

theorem vote_without_poll_id_counterexample:
  "get_active_channel_poll_count simple_polls [lunch, dinner] (channel_name bob) = 2
   \<and> cmd_vote simple_polls cfg0 [lunch, dinner] bob [u ''1'']
       = reply [lunch, dinner]
           (u ''@bob there are multiple polls active, please specify the poll id, example: !vote 1 <POLL_ID>'')
   \<and> raised (cmd_vote simple_polls cfg0 [lunch, dinner] bob [u ''1'']) = None"
  by (simp add: cmd_vote_def cmd_vote_resolve_def simple_polls_def polls_of_def lunch_def dinner_def
        bob_def cfg0_def reply_def u_append [symmetric])

lemma vote_resolve_wrong_arity:
  assumes "get_active_channel_poll_count P s (channel_name msg) \<noteq> 0"
      and "get_active_channel_poll_count P s (channel_name msg) \<noteq> 1"
      and "length args \<noteq> 2"
  shows "cmd_vote_resolve P cfg s msg choice args =
           Reply_and_return
             (mention msg
              @ u '' there are multiple polls active, please specify the poll id, example: ''
              @ prefix cfg @ u ''vote '' @ choice @ u '' <POLL_ID>'')"
  using assms by (simp add: cmd_vote_resolve_def Let_def)

text \<open>
  Claim C5, amended. In a channel with more than one active poll the vote handler,
  invoked with at least one argument (the choice), needs a second argument that names
  the poll id. When the number of arguments is not two, it replies to the user with the
  request to specify the poll id and returns without an error. With two arguments, it raises the invalid-arguments error when the second one
  is not numeric and when no poll has the given id; otherwise the poll with that id is
  the target.
\<close>

theorem cmd_vote_multiple_polls:
  assumes "get_active_channel_poll_count P s (channel_name msg) > 1"
  shows "(length (choice # rest) \<noteq> 2 \<longrightarrow>
            cmd_vote P cfg s msg (choice # rest)
              = reply s (mention msg
                   @ u '' there are multiple polls active, please specify the poll id, example: ''
                   @ prefix cfg @ u ''vote '' @ choice @ u '' <POLL_ID>''))
       \<and> (\<not> isdigit v \<longrightarrow>
            cmd_vote P cfg s msg [choice, v]
              = raise s (InvalidArgumentsError (v @ u '' is not a valid number'') None))
       \<and> (only_digits v
            \<and> get_channel_poll_by_id P s (channel_name msg) (int (int_value v)) = None \<longrightarrow>
            cmd_vote P cfg s msg [choice, v]
              = raise s (InvalidArgumentsError
                           (u ''Could not find poll by ID '' @ u (str_int (int (int_value v))))
                           (Some Vote)))
       \<and> (only_digits v
            \<and> get_channel_poll_by_id P s (channel_name msg) (int (int_value v)) = Some poll \<longrightarrow>
            cmd_vote_resolve P cfg s msg choice [choice, v] = Target poll)"
proof -
  from assms have n: "get_active_channel_poll_count P s (channel_name msg) \<noteq> 0"
    "get_active_channel_poll_count P s (channel_name msg) \<noteq> 1" by auto
  have a: "length (choice # rest) \<noteq> 2 \<Longrightarrow> cmd_vote P cfg s msg (choice # rest)
              = reply s (mention msg
                   @ u '' there are multiple polls active, please specify the poll id, example: ''
                   @ prefix cfg @ u ''vote '' @ choice @ u '' <POLL_ID>'')"
    using vote_resolve_wrong_arity [OF n, of "choice # rest" cfg choice]
    by (simp add: cmd_vote_def)
  have b: "\<not> isdigit v \<Longrightarrow> cmd_vote P cfg s msg [choice, v]
              = raise s (InvalidArgumentsError (v @ u '' is not a valid number'') None)"
    by (simp add: cmd_vote_def vote_resolve_poll_id [OF n] cast_to_int_or_error_def)
  have c: "only_digits v \<Longrightarrow>
           get_channel_poll_by_id P s (channel_name msg) (int (int_value v)) = None \<Longrightarrow>
            cmd_vote P cfg s msg [choice, v]
              = raise s (InvalidArgumentsError
                           (u ''Could not find poll by ID '' @ u (str_int (int (int_value v))))
                           (Some Vote))"
    by (simp add: cmd_vote_def vote_resolve_poll_id [OF n] cast_only_digits)
  have d: "only_digits v \<Longrightarrow>
            get_channel_poll_by_id P s (channel_name msg) (int (int_value v)) = Some poll \<Longrightarrow>
            cmd_vote_resolve P cfg s msg choice [choice, v] = Target poll"
    by (simp add: vote_resolve_poll_id [OF n] cast_only_digits)
  from a b c d show ?thesis by blast
qed

theorem cmd_vote_multiple_polls_witness:
  "get_active_channel_poll_count simple_polls [lunch, dinner] (channel_name bob) > 1
   \<and> cmd_vote simple_polls cfg0 [lunch, dinner] bob [u ''1'']
       = reply [lunch, dinner]
           (u ''@bob there are multiple polls active, please specify the poll id, example: !vote 1 <POLL_ID>'')
   \<and> cmd_vote simple_polls cfg0 [lunch, dinner] bob [u ''1'', u ''x'']
       = raise [lunch, dinner] (InvalidArgumentsError (u ''x is not a valid number'') None)
   \<and> cmd_vote simple_polls cfg0 [lunch, dinner] bob [u ''1'', u ''7'']
       = raise [lunch, dinner] (InvalidArgumentsError (u ''Could not find poll by ID 7'') (Some Vote))
   \<and> cmd_vote_resolve simple_polls cfg0 [lunch, dinner] bob (u ''1'') [u ''1'', u ''2''] = Target 2"
proof -
  have n: "get_active_channel_poll_count simple_polls [lunch, dinner] (channel_name bob) > 1"
    by (simp add: fixture)
  have d: "only_digits (u ''7'')" "only_digits (u ''2'')" "\<not> isdigit (u ''x'')"
    by code_simp+
  have v: "int_value (u ''7'') = 7" "int_value (u ''2'') = 2"
    by code_simp+
  have l: "get_channel_poll_by_id simple_polls [lunch, dinner] (channel_name bob) 7 = None"
          "get_channel_poll_by_id simple_polls [lunch, dinner] (channel_name bob) 2 = Some 2"
    by (simp_all add: fixture)
  have s7: "u (str_int 7) = u ''7''" by code_simp
  have m: "mention bob = u ''@bob''" "prefix cfg0 = u ''!''" by (simp_all add: fixture)
  from cmd_vote_multiple_polls [OF n, where rest = "[]" and v = "u ''x''" and choice = "u ''1''" and cfg = cfg0]
       cmd_vote_multiple_polls [OF n, where rest = "[]" and v = "u ''7''" and choice = "u ''1''" and cfg = cfg0]
       cmd_vote_multiple_polls [OF n, where rest = "[]" and v = "u ''2''" and choice = "u ''1''" and cfg = cfg0 and poll = 2]
  show ?thesis using n d by (simp add: v l s7 m u_append [symmetric])
qed

subsection \<open>A voter who has already voted\<close>

lemma cmd_vote_Target_frame:
  assumes "cmd_vote_resolve P cfg s msg choice (choice # rest) = Target poll"
      and "has_already_voted P s poll (author msg)"
  shows "votes_added (cmd_vote P cfg s msg (choice # rest)) = []
         \<and> state_after (cmd_vote P cfg s msg (choice # rest)) = s"
  using assms(2)
  by (simp add: cmd_vote_Target [OF assms(1)] raise_def reply_def returns_def split: sum.splits)

lemma cmd_vote_Target_silent:
  assumes "cmd_vote_resolve P cfg s msg choice (choice # rest) = Target poll"
      and "has_already_voted P s poll (author msg)"
      and "only_digits choice"
      and "is_valid_vote P s poll (int (int_value choice))"
  shows "cmd_vote P cfg s msg (choice # rest) = returns s"
  using assms(2-4)
  by (simp add: cmd_vote_Target [OF assms(1)] only_digits_isdigit py_int_only_digits)

lemma cmd_vote_Target_invalid:
  assumes "cmd_vote_resolve P cfg s msg choice (choice # rest) = Target poll"
      and "only_digits choice"
      and "\<not> is_valid_vote P s poll (int (int_value choice))"
  shows "cmd_vote P cfg s msg (choice # rest)
           = reply s (u (str_int (int (int_value choice))) @ u '' is not a valid choice id for poll#''
                      @ u (str_int (poll_id P s poll)) @ u '', choices are: ''
                      @ format_choices P s poll)"
  using assms(2-3)
  by (simp add: cmd_vote_Target [OF assms(1)] only_digits_isdigit py_int_only_digits)

lemma cmd_vote_Target_records:
  assumes "cmd_vote_resolve P cfg s msg choice (choice # rest) = Target poll"
      and "\<not> has_already_voted P s poll (author msg)"
      and "only_digits choice"
      and "is_valid_vote P s poll (int (int_value choice))"
  shows "cmd_vote P cfg s msg (choice # rest)
           = \<lparr>state_after = add_vote P s poll (author msg) (int (int_value choice)),
              replies = [],
              votes_added = [(poll, author msg, int (int_value choice))],
              printed = [votes P (add_vote P s poll (author msg) (int (int_value choice))) poll],
              raised = None\<rparr>"
  using assms(2-4)
  by (simp add: cmd_vote_Target [OF assms(1)] only_digits_isdigit py_int_only_digits)

text \<open>
  Claim C6, as stated, fails for a voter who has already voted and sends a choice that
  does not pass validation: the choice is validated before the poll is asked whether the
  author has voted. In the example bob has voted in the one active poll; his vote for
  choice \<open>5\<close> is answered with a reply, and his vote for \<open>x\<close> raises the
  invalid-arguments error.
\<close>

theorem already_voted_invalid_choice_counterexample:
  "cmd_vote_resolve simple_polls cfg0 [dinner] bob (u ''5'') [u ''5''] = Target 2
   \<and> cmd_vote_resolve simple_polls cfg0 [dinner] bob (u ''x'') [u ''x''] = Target 2
   \<and> has_already_voted simple_polls [dinner] 2 (author bob)
   \<and> replies (cmd_vote simple_polls cfg0 [dinner] bob [u ''5''])
       = [u ''5 is not a valid choice id for poll#2, choices are: soup, rice'']
   \<and> raised (cmd_vote simple_polls cfg0 [dinner] bob [u ''x''])
       = Some (InvalidArgumentsError (u ''x is not a valid number'') (Some Vote))"
  by code_simp

text \<open>
  Claim C6, amended. When the poll the vote is for reports that the author of the
  message has already voted, the vote handler does not call \<open>add_vote\<close> and leaves the
  state of the polls as it is. The choice is validated first: a choice that is not made
  of digits raises an error, a choice that is not a valid choice id of the poll is
  answered with a reply. With a choice that passes validation the handler returns at
  once: no call of \<open>add_vote\<close>, no reply, no error. So when a voter votes twice for the
  same poll, the first vote being recorded and the poll then reporting that the voter
  has voted, the two runs together record exactly one vote and the second run leaves the
  state as the first one left it, whatever the second choice is; with a valid second
  choice the second run is silent.
\<close>

theorem cmd_vote_already_voted:
  "(cmd_vote_resolve P cfg s msg choice (choice # rest) = Target poll
      \<and> has_already_voted P s poll (author msg) \<longrightarrow>
        votes_added (cmd_vote P cfg s msg (choice # rest)) = []
        \<and> state_after (cmd_vote P cfg s msg (choice # rest)) = s
        \<and> (only_digits choice \<and> is_valid_vote P s poll (int (int_value choice)) \<longrightarrow>
             cmd_vote P cfg s msg (choice # rest) = returns s)
        \<and> (only_digits choice \<and> \<not> is_valid_vote P s poll (int (int_value choice)) \<longrightarrow>
             cmd_vote P cfg s msg (choice # rest)
               = reply s (u (str_int (int (int_value choice)))
                          @ u '' is not a valid choice id for poll#''
                          @ u (str_int (poll_id P s poll)) @ u '', choices are: ''
                          @ format_choices P s poll))
        \<and> (\<not> only_digits choice \<longrightarrow> raised (cmd_vote P cfg s msg (choice # rest)) \<noteq> None))
   \<and> (cmd_vote_resolve P cfg s msg choice (choice # rest) = Target poll
        \<and> only_digits choice \<and> is_valid_vote P s poll (int (int_value choice))
        \<and> \<not> has_already_voted P s poll (author msg)
        \<and> has_already_voted P (add_vote P s poll (author msg) (int (int_value choice)))
             poll (author msg)
        \<and> cmd_vote_resolve P cfg (add_vote P s poll (author msg) (int (int_value choice)))
             msg choice' (choice' # rest') = Target poll \<longrightarrow>
        (let first = cmd_vote P cfg s msg (choice # rest);
             second = cmd_vote P cfg (state_after first) msg (choice' # rest')
         in votes_added first @ votes_added second
              = [(poll, author msg, int (int_value choice))]
            \<and> state_after second = state_after first
            \<and> (only_digits choice'
                 \<and> is_valid_vote P (state_after first) poll (int (int_value choice')) \<longrightarrow>
                 second = returns (state_after first))))"
proof -
  let ?c = "int (int_value choice)"
  let ?s1 = "add_vote P s poll (author msg) ?c"
  have one: "votes_added (cmd_vote P cfg s msg (choice # rest)) = []
        \<and> state_after (cmd_vote P cfg s msg (choice # rest)) = s
        \<and> (only_digits choice \<and> is_valid_vote P s poll ?c \<longrightarrow>
             cmd_vote P cfg s msg (choice # rest) = returns s)
        \<and> (only_digits choice \<and> \<not> is_valid_vote P s poll ?c \<longrightarrow>
             cmd_vote P cfg s msg (choice # rest)
               = reply s (u (str_int ?c) @ u '' is not a valid choice id for poll#''
                          @ u (str_int (poll_id P s poll)) @ u '', choices are: ''
                          @ format_choices P s poll))
        \<and> (\<not> only_digits choice \<longrightarrow> raised (cmd_vote P cfg s msg (choice # rest)) \<noteq> None)"
    if a: "cmd_vote_resolve P cfg s msg choice (choice # rest) = Target poll"
      and b: "has_already_voted P s poll (author msg)"
    using cmd_vote_Target_frame [OF a b] cmd_vote_Target_silent [OF a b]
          cmd_vote_Target_invalid [OF a] cmd_vote_choice_accepted [OF a]
    by blast
  have two: "let first = cmd_vote P cfg s msg (choice # rest);
                 second = cmd_vote P cfg (state_after first) msg (choice' # rest')
             in votes_added first @ votes_added second = [(poll, author msg, ?c)]
                \<and> state_after second = state_after first
                \<and> (only_digits choice'
                     \<and> is_valid_vote P (state_after first) poll (int (int_value choice')) \<longrightarrow>
                     second = returns (state_after first))"
    if a: "cmd_vote_resolve P cfg s msg choice (choice # rest) = Target poll"
      and c: "only_digits choice" and d: "is_valid_vote P s poll ?c"
      and b: "\<not> has_already_voted P s poll (author msg)"
      and b': "has_already_voted P ?s1 poll (author msg)"
      and a': "cmd_vote_resolve P cfg ?s1 msg choice' (choice' # rest') = Target poll"
  proof -
    note first = cmd_vote_Target_records [OF a b c d]
    have s1: "state_after (cmd_vote P cfg s msg (choice # rest)) = ?s1"
      and v1: "votes_added (cmd_vote P cfg s msg (choice # rest)) = [(poll, author msg, ?c)]"
      by (simp_all add: first)
    note frame = cmd_vote_Target_frame [OF a' b']
    have silent: "cmd_vote P cfg ?s1 msg (choice' # rest') = returns ?s1"
      if "only_digits choice'" "is_valid_vote P ?s1 poll (int (int_value choice'))"
      by (rule cmd_vote_Target_silent [OF a' b' that])
    show ?thesis
      unfolding Let_def s1 v1 using frame silent by simp
  qed
  from one two show ?thesis by blast
qed

theorem cmd_vote_already_voted_witness:
  "cmd_vote_resolve simple_polls cfg0 [dinner] bob (u ''1'') [u ''1''] = Target 2
   \<and> has_already_voted simple_polls [dinner] 2 (author bob)
   \<and> cmd_vote simple_polls cfg0 [dinner] bob [u ''1''] = returns [dinner]
   \<and> cmd_vote simple_polls cfg0 [dinner] bob [u ''5'']
       = reply [dinner] (u ''5 is not a valid choice id for poll#2, choices are: soup, rice'')
   \<and> raised (cmd_vote simple_polls cfg0 [dinner] bob [u ''x'']) \<noteq> None
   \<and> \<not> has_already_voted simple_polls [lunch] 1 (author bob)
   \<and> votes_added (cmd_vote simple_polls cfg0 [lunch] bob [u ''1''])
        @ votes_added (cmd_vote simple_polls cfg0
                         (state_after (cmd_vote simple_polls cfg0 [lunch] bob [u ''1''])) bob [u ''0''])
       = [(1, u ''bob'', 1)]
   \<and> cmd_vote simple_polls cfg0
        (state_after (cmd_vote simple_polls cfg0 [lunch] bob [u ''1''])) bob [u ''0'']
       = returns (state_after (cmd_vote simple_polls cfg0 [lunch] bob [u ''1'']))"
proof -
  have d: "only_digits (u ''1'')" "only_digits (u ''0'')" by code_simp+
  have v: "int_value (u ''1'') = 1" "int_value (u ''0'') = 0"
    by code_simp+
  have r1: "cmd_vote_resolve simple_polls cfg0 [dinner] bob (u ''1'') [u ''1''] = Target 2"
    by (simp add: cmd_vote_resolve_def fixture)
  have h1: "has_already_voted simple_polls [dinner] 2 (author bob)"
           "is_valid_vote simple_polls [dinner] 2 1"
    by (simp_all add: fixture)
  have r2: "cmd_vote_resolve simple_polls cfg0 [lunch] bob (u ''1'') [u ''1''] = Target 1"
    by (simp add: cmd_vote_resolve_def fixture)
  have h2: "\<not> has_already_voted simple_polls [lunch] 1 (author bob)"
           "is_valid_vote simple_polls [lunch] 1 1"
    by (simp_all add: fixture)
  have r3: "cmd_vote_resolve simple_polls cfg0 (add_vote simple_polls [lunch] 1 (author bob) 1)
              bob (u ''0'') [u ''0''] = Target 1"
    by (simp add: cmd_vote_resolve_def fixture)
  have h3: "has_already_voted simple_polls (add_vote simple_polls [lunch] 1 (author bob) 1) 1 (author bob)"
    by (simp add: fixture)
  have s1: "state_after (cmd_vote simple_polls cfg0 [lunch] bob [u ''1''])
              = add_vote simple_polls [lunch] 1 (author bob) 1"
    using cmd_vote_Target_records [OF r2 h2(1) d(1)] h2(2) by (simp add: v)
  have h4: "is_valid_vote simple_polls (add_vote simple_polls [lunch] 1 (author bob) 1) 1 0"
    by (simp add: fixture)
  have a: "author bob = u ''bob''" by (simp add: bob_def)
  note one = cmd_vote_already_voted [where P = simple_polls and cfg = cfg0 and s = "[dinner]"
         and msg = bob and choice = "u ''1''" and rest = "[]" and poll = 2, THEN conjunct1, THEN mp,
         OF conjI [OF r1 h1(1)]]
  have A: "cmd_vote simple_polls cfg0 [dinner] bob [u ''1''] = returns [dinner]"
    using one d(1) h1(2) by (simp add: v)
  have d5: "only_digits (u ''5'')" "\<not> only_digits (u ''x'')" by code_simp+
  have v5: "int_value (u ''5'') = 5" by code_simp
  have r5: "cmd_vote_resolve simple_polls cfg0 [dinner] bob (u ''5'') [u ''5''] = Target 2"
           "cmd_vote_resolve simple_polls cfg0 [dinner] bob (u ''x'') [u ''x''] = Target 2"
    by (simp_all add: cmd_vote_resolve_def fixture)
  have h5: "\<not> is_valid_vote simple_polls [dinner] 2 (int (int_value (u ''5'')))"
    by (simp add: v5 fixture)
  have t5: "u (str_int (int (int_value (u ''5'')))) @ u '' is not a valid choice id for poll#''
              @ u (str_int (poll_id simple_polls [dinner] 2)) @ u '', choices are: ''
              @ format_choices simple_polls [dinner] 2
            = u ''5 is not a valid choice id for poll#2, choices are: soup, rice''"
    by code_simp
  have A5: "cmd_vote simple_polls cfg0 [dinner] bob [u ''5'']
       = reply [dinner] (u ''5 is not a valid choice id for poll#2, choices are: soup, rice'')"
    using cmd_vote_already_voted [where P = simple_polls and cfg = cfg0 and s = "[dinner]"
         and msg = bob and choice = "u ''5''" and rest = "[]" and poll = 2, THEN conjunct1,
         THEN mp, OF conjI [OF r5(1) h1(1)], THEN conjunct2, THEN conjunct2, THEN conjunct2,
         THEN conjunct1, THEN mp, OF conjI [OF d5(1) h5]]
    unfolding t5 .
  have Ax: "raised (cmd_vote simple_polls cfg0 [dinner] bob [u ''x'']) \<noteq> None"
    using cmd_vote_already_voted [where P = simple_polls and cfg = cfg0 and s = "[dinner]"
         and msg = bob and choice = "u ''x''" and rest = "[]" and poll = 2, THEN conjunct1,
         THEN mp, OF conjI [OF r5(2) h1(1)], THEN conjunct2, THEN conjunct2, THEN conjunct2,
         THEN conjunct2, THEN mp, OF d5(2)] .
  have pre: "cmd_vote_resolve simple_polls cfg0 [lunch] bob (u ''1'') [u ''1''] = Target 1
       \<and> only_digits (u ''1'') \<and> is_valid_vote simple_polls [lunch] 1 (int (int_value (u ''1'')))
       \<and> \<not> has_already_voted simple_polls [lunch] 1 (author bob)
       \<and> has_already_voted simple_polls
            (add_vote simple_polls [lunch] 1 (author bob) (int (int_value (u ''1'')))) 1 (author bob)
       \<and> cmd_vote_resolve simple_polls cfg0
            (add_vote simple_polls [lunch] 1 (author bob) (int (int_value (u ''1''))))
            bob (u ''0'') [u ''0''] = Target 1"
    using r2 d(1) h2 h3 r3 by (simp add: v)
  note two = cmd_vote_already_voted [where P = simple_polls and cfg = cfg0 and s = "[lunch]"
         and msg = bob and choice = "u ''1''" and rest = "[]" and poll = 1
         and choice' = "u ''0''" and rest' = "[]", THEN conjunct2, THEN mp, OF pre,
         unfolded Let_def]
  have B: "votes_added (cmd_vote simple_polls cfg0 [lunch] bob [u ''1''])
        @ votes_added (cmd_vote simple_polls cfg0
                         (state_after (cmd_vote simple_polls cfg0 [lunch] bob [u ''1''])) bob [u ''0''])
       = [(1, u ''bob'', 1)]"
    using two [THEN conjunct1] by (simp add: v a)
  have C: "cmd_vote simple_polls cfg0
        (state_after (cmd_vote simple_polls cfg0 [lunch] bob [u ''1''])) bob [u ''0'']
       = returns (state_after (cmd_vote simple_polls cfg0 [lunch] bob [u ''1'']))"
    using two [THEN conjunct2, THEN conjunct2] d(2) h4 by (simp add: v s1)
  from r1 h1(1) A A5 Ax h2(1) B C show ?thesis by (intro conjI)
qed

subsection \<open>The search for the poll in the vote and poll-info handlers\<close>

text \<open>
  Claim C8, as stated, fails for several active polls and no poll id: the vote handler
  replies to the user, the poll-info handler raises the invalid-arguments error.
\<close>

theorem resolution_kinds_differ_counterexample:
  "get_active_channel_poll_count simple_polls [lunch, dinner] (channel_name bob) = 2
   \<and> kind_of (cmd_vote_resolve simple_polls cfg0 [lunch, dinner] bob (u ''1'') [u ''1'']) = User_reply
   \<and> kind_of (cmd_poll_info_resolve simple_polls cfg0 [lunch, dinner] bob []) = Invalid_arguments"
  by (simp add: cmd_vote_resolve_def cmd_poll_info_resolve_def simple_polls_def polls_of_def
        lunch_def dinner_def bob_def)

lemma kind_of_cast:
  "kind_of (case cast_to_int_or_error v of
              Inl e \<Rightarrow> Raise e
            | Inr n \<Rightarrow> (case lookup n of None \<Rightarrow> Raise (InvalidArgumentsError (f n) c)
                        | Some poll \<Rightarrow> Target poll))
   = kind_of (if \<not> isdigit v then Raise (InvalidArgumentsError y d)
              else (case py_int v of
                      Inl e \<Rightarrow> Raise e
                    | Inr n \<Rightarrow> (case lookup n of None \<Rightarrow> Raise (InvalidArgumentsError z d)
                                | Some poll \<Rightarrow> Target poll)))"
  by (simp add: cast_to_int_or_error_def split: sum.splits option.splits)

text \<open>
  Claim C8, amended. With no active poll, with exactly one active poll, and with one
  poll id argument (numeric or not, matched or not), the poll-info handler finds its
  poll as the vote handler does and the outcome is of the same kind: the same target,
  a reply to the user, or the invalid-arguments error. With more than one active poll
  and no poll id argument the two differ: the vote handler replies to the user, the
  poll-info handler raises the invalid-arguments error.
\<close>

theorem resolution_kinds_agree:
  "(get_active_channel_poll_count P s (channel_name msg) = 0
      \<or> get_active_channel_poll_count P s (channel_name msg) = 1
      \<or> length ids = 1 \<longrightarrow>
      kind_of (cmd_vote_resolve P cfg s msg choice (choice # ids))
        = kind_of (cmd_poll_info_resolve P cfg s msg ids))
   \<and> (get_active_channel_poll_count P s (channel_name msg) > 1 \<and> ids = [] \<longrightarrow>
        kind_of (cmd_vote_resolve P cfg s msg choice (choice # ids)) = User_reply
        \<and> kind_of (cmd_poll_info_resolve P cfg s msg ids) = Invalid_arguments)"
proof (intro conjI impI, goal_cases)
  case 1
  consider (zero) "get_active_channel_poll_count P s (channel_name msg) = 0"
    | (one) "get_active_channel_poll_count P s (channel_name msg) = 1"
    | (id) "get_active_channel_poll_count P s (channel_name msg) \<noteq> 0"
           "get_active_channel_poll_count P s (channel_name msg) \<noteq> 1" "length ids = 1"
    using 1 by blast
  then show ?case
  proof cases
    case zero
    then show ?thesis by (simp add: cmd_vote_resolve_def cmd_poll_info_resolve_def)
  next
    case one
    then show ?thesis
      by (simp add: cmd_vote_resolve_def cmd_poll_info_resolve_def split: list.splits)
  next
    case id
    then obtain v where ids: "ids = [v]" by (cases ids) auto
    show ?thesis
      unfolding ids vote_resolve_poll_id [OF id(1,2)] poll_info_resolve_poll_id [OF id(1,2)]
      by (rule kind_of_cast)
  qed
next
  case 2 then show ?case by (simp add: cmd_vote_resolve_def)
next
  case 3 then show ?case by (simp add: cmd_poll_info_resolve_def)
qed

theorem resolution_kinds_agree_witness:
  "kind_of (cmd_vote_resolve simple_polls cfg0 [lunch, dinner] bob (u ''1'') [u ''1'', u ''2''])
     = kind_of (cmd_poll_info_resolve simple_polls cfg0 [lunch, dinner] bob [u ''2''])
   \<and> get_active_channel_poll_count simple_polls [lunch, dinner] (channel_name bob) > 1
   \<and> kind_of (cmd_vote_resolve simple_polls cfg0 [lunch, dinner] bob (u ''1'') [u ''1'']) = User_reply
   \<and> kind_of (cmd_poll_info_resolve simple_polls cfg0 [lunch, dinner] bob []) = Invalid_arguments"
proof -
  have n: "get_active_channel_poll_count simple_polls [lunch, dinner] (channel_name bob) > 1"
    by (simp add: fixture)
  from resolution_kinds_agree [where P = simple_polls and cfg = cfg0 and s = "[lunch, dinner]"
         and msg = bob and choice = "u ''1''" and ids = "[u ''2'']"]
       resolution_kinds_agree [where P = simple_polls and cfg = cfg0 and s = "[lunch, dinner]"
         and msg = bob and choice = "u ''1''" and ids = "[]"]
  show ?thesis using n by simp
qed

subsection \<open>The listing of polls\<close>

lemma join_Cons: "join sep (x # xs) = x @ concat (map (\<lambda>y. sep @ y) xs)"
  by (induction xs arbitrary: x) auto

text \<open>
  Claim C9. With no active poll in the channel the list-polls handler replies with the
  empty string. With active polls it replies with their entries, each of the form
  id, arrow, title in double quotes, in the order the polls are listed, with
  \<open>space bar space\<close> between one entry and the next.
\<close>

theorem cmd_list_polls_reply:
  "(get_active_channel_polls P s (channel_name msg) = [] \<longrightarrow>
      cmd_list_polls P s msg args = reply s [])
   \<and> (get_active_channel_polls P s (channel_name msg) = poll # others \<longrightarrow>
        cmd_list_polls P s msg args
          = reply s (poll_entry P s poll @ concat (map (\<lambda>q. u '' | '' @ poll_entry P s q) others)))"
  by (simp add: cmd_list_polls_def join_Cons poll_entry_def comp_def)

theorem cmd_list_polls_reply_witness:
  "cmd_list_polls simple_polls [] bob [] = reply [] []
   \<and> cmd_list_polls simple_polls [lunch, dinner] bob []
       = reply [lunch, dinner] (u ''1 -> '' @ u [dquote] @ u ''lunch'' @ u [dquote] @ u '' | 2 -> ''
                                @ u [dquote] @ u ''dinner'' @ u [dquote])"
proof -
  have e: "get_active_channel_polls simple_polls [] (channel_name bob) = []"
          "get_active_channel_polls simple_polls [lunch, dinner] (channel_name bob) = [1, 2]"
    by (simp_all add: fixture)
  have p: "poll_entry simple_polls [lunch, dinner] 1 = u ''1 -> '' @ u [dquote] @ u ''lunch'' @ u [dquote]"
          "poll_entry simple_polls [lunch, dinner] 2 = u ''2 -> '' @ u [dquote] @ u ''dinner'' @ u [dquote]"
    by code_simp+
  from cmd_list_polls_reply [where P = simple_polls and s = "[]" and msg = bob and args = "[]"]
       cmd_list_polls_reply [where P = simple_polls and s = "[lunch, dinner]" and msg = bob
         and args = "[]" and poll = 1 and others = "[2]"]
  show ?thesis using e by (simp add: p u_append [symmetric])
qed

subsection \<open>Exactly one active poll\<close>

text \<open>
  Claim C10. With exactly one active poll in the channel, the vote handler and the
  poll-info handler act on that poll whatever further arguments follow: the further
  arguments are neither checked for digits nor used for a lookup, the run is the run
  without them, and the poll-info handler raises no error.
\<close>

theorem single_poll_ignores_poll_id:
  assumes "get_active_channel_poll_count P s (channel_name msg) = 1"
      and "get_active_channel_polls P s (channel_name msg) = poll # others"
  shows "cmd_vote_resolve P cfg s msg choice (choice # extra) = Target poll
       \<and> cmd_vote P cfg s msg (choice # extra) = cmd_vote P cfg s msg [choice]
       \<and> cmd_poll_info_resolve P cfg s msg extra = Target poll
       \<and> cmd_poll_info P cfg s msg extra = cmd_poll_info P cfg s msg []
       \<and> raised (cmd_poll_info P cfg s msg extra) = None"
proof -
  have v: "cmd_vote_resolve P cfg s msg choice args = Target poll" for args
    using assms by (simp add: cmd_vote_resolve_def)
  have i: "cmd_poll_info_resolve P cfg s msg args = Target poll" for args
    using assms by (simp add: cmd_poll_info_resolve_def)
  show ?thesis
    by (simp add: v i cmd_vote_def cmd_poll_info_def reply_def)
qed

theorem single_poll_ignores_poll_id_witness:
  "get_active_channel_poll_count simple_polls [dinner] (channel_name bob) = 1
   \<and> cmd_vote_resolve simple_polls cfg0 [dinner] bob (u ''1'') [u ''1'', u ''zz''] = Target 2
   \<and> cmd_vote simple_polls cfg0 [dinner] bob [u ''1'', u ''zz'']
       = cmd_vote simple_polls cfg0 [dinner] bob [u ''1'']
   \<and> cmd_poll_info_resolve simple_polls cfg0 [dinner] bob [u ''zz'', u ''7''] = Target 2
   \<and> cmd_poll_info simple_polls cfg0 [dinner] bob [u ''zz'', u ''7'']
       = cmd_poll_info simple_polls cfg0 [dinner] bob []"
proof -
  have n: "get_active_channel_poll_count simple_polls [dinner] (channel_name bob) = 1"
    by (simp add: fixture)
  have l: "get_active_channel_polls simple_polls [dinner] (channel_name bob) = 2 # []"
    by (simp add: fixture)
  from single_poll_ignores_poll_id [OF n l, where cfg = cfg0 and choice = "u ''1''" and extra = "[u ''zz'']"]
       single_poll_ignores_poll_id [OF n l, where cfg = cfg0 and choice = "u ''1''" and extra = "[u ''zz'', u ''7'']"]
  show ?thesis using n by blast
qed

section \<open>Properties of the poll-text parser\<close>

subsection \<open>Backtracking\<close>

declare re_match.simps [simp del]

lemma re_match_Nil: "re_match [] s = Some []"
  by (simp add: re_match.simps)

lemma re_match_Cons:
  "re_match (Piece g cls q # ps) s =
     first_down (\<lambda>n. map_option (capture g (take n s)) (re_match ps (drop n s)))
       (least_count q) (most_count q cls s)"
  by (simp add: re_match.simps)

lemma first_down_top: "lo \<le> n \<Longrightarrow> f n = Some r \<Longrightarrow> first_down f lo n = Some r"
  by (cases n) auto

lemma first_down_Some:
  "first_down f lo n = Some r \<Longrightarrow> \<exists>k. lo \<le> k \<and> k \<le> n \<and> f k = Some r"
proof (induction n)
  case 0
  then show ?case by (auto split: if_splits)
next
  case (Suc n)
  show ?case
  proof (cases "f (Suc n)")
    case None
    with Suc.prems have "first_down f lo n = Some r" by (auto split: if_splits)
    from Suc.IH [OF this] show ?thesis by (meson le_Suc_eq)
  next
    case (Some a)
    with Suc.prems show ?thesis by (auto split: if_splits intro!: exI [of _ "Suc n"])
  qed
qed

lemma first_down_only_top:
  "(\<And>k. k < n \<Longrightarrow> f k = None) \<Longrightarrow> first_down f lo n = (if lo \<le> n then f n else None)"
proof (induction n)
  case 0
  then show ?case by simp
next
  case (Suc n)
  have "first_down f lo n = (if lo \<le> n then f n else None)"
    by (rule Suc.IH) (simp add: Suc.prems)
  moreover have "f n = None" by (simp add: Suc.prems)
  ultimately show ?case by (auto split: option.splits)
qed

lemma re_match_Once:
  "re_match (Piece g cls Once # ps) s =
     (case s of
        [] \<Rightarrow> None
      | c # s' \<Rightarrow> if cls c then map_option (capture g [c]) (re_match ps s') else None)"
proof (cases s)
  case Nil
  then show ?thesis by (simp add: re_match_Cons least_count_def most_count_def)
next
  case (Cons c s')
  then show ?thesis
    by (cases "re_match ps s'") (simp_all add: re_match_Cons least_count_def most_count_def)
qed

lemma re_match_last_Star:
  "re_match [Piece g cls Star] s = Some (capture g (takeWhile cls s) [])"
proof -
  have "take (length (takeWhile cls s)) s = takeWhile cls s"
    by (simp add: takeWhile_eq_take [symmetric])
  then show ?thesis
    by (simp add: re_match_Cons re_match_Nil least_count_def most_count_def first_down_top)
qed

lemma re_match_tail:
  "re_match [Piece None char_isspace Star, Piece (Some ''time'') time_char Star] r
     = Some [(''time'', duration_text r)]"
proof -
  have d: "drop (length (takeWhile char_isspace r)) r = dropWhile char_isspace r"
    by (simp add: dropWhile_eq_drop [symmetric])
  have inner: "re_match [Piece (Some ''time'') time_char Star] x = Some [(''time'', takeWhile time_char x)]"
    for x by (simp only: re_match_last_Star capture_def option.case)
  show ?thesis
    by (subst re_match_Cons)
       (simp add: inner least_count_def most_count_def first_down_top capture_def
          duration_text_def d)
qed

subsection \<open>The pattern\<close>

lemma options_not_close: "\<not> options_char CHR '']''"
  by (simp add: options_char_def char_isword_def char_isdecimal_def char_isspace_def
        between_def ord_def)

lemma re_match_close:
  "re_match [Piece None (\<lambda>c. c = CHR '']'') Once, Piece None char_isspace Star,
             Piece (Some ''time'') time_char Star] s
     = (case s of [] \<Rightarrow> None
        | d # r \<Rightarrow> if d = CHR '']'' then Some [(''time'', duration_text r)] else None)"
  by (simp add: re_match_Once re_match_tail capture_def split: list.splits)

lemma re_match_options:
  "re_match [Piece (Some ''options'') options_char Plus,
             Piece None (\<lambda>c. c = CHR '']'') Once, Piece None char_isspace Star,
             Piece (Some ''time'') time_char Star] s
     = (if takeWhile options_char s \<noteq> []
        then (case dropWhile options_char s of
                [] \<Rightarrow> None
              | d # r \<Rightarrow>
                  if d = CHR '']''
                  then Some [(''options'', takeWhile options_char s), (''time'', duration_text r)]
                  else None)
        else None)"
proof -
  let ?hi = "length (takeWhile options_char s)"
  let ?rest = "[Piece None (\<lambda>c. c = CHR '']'') Once, Piece None char_isspace Star,
               Piece (Some ''time'') time_char Star]"
  let ?f = "\<lambda>n. map_option (capture (Some ''options'') (take n s)) (re_match ?rest (drop n s))"
  have below: "?f k = None" if "k < ?hi" for k
  proof -
    from that have "k < length s" using length_takeWhile_le [of options_char s] by simp
    then have d: "drop k s = s ! k # drop (Suc k) s" by (simp add: Cons_nth_drop_Suc)
    have "options_char (s ! k)" using that
      by (metis nth_mem takeWhile_nth set_takeWhileD)
    then have "s ! k \<noteq> CHR '']''" using options_not_close by auto
    then show ?thesis by (simp add: re_match_close d)
  qed
  have top: "first_down ?f 1 ?hi = (if 1 \<le> ?hi then ?f ?hi else None)"
    by (rule first_down_only_top) (rule below)
  have t: "take ?hi s = takeWhile options_char s" by (simp add: takeWhile_eq_take [symmetric])
  have d: "drop ?hi s = dropWhile options_char s" by (simp add: dropWhile_eq_drop [symmetric])
  have lc: "least_count Plus = 1" "most_count Plus options_char s = ?hi"
    by (simp_all add: least_count_def most_count_def)
  have e: "re_match (Piece (Some ''options'') options_char Plus # ?rest) s
             = (if 1 \<le> ?hi then ?f ?hi else None)"
    unfolding re_match_Cons [of "Some ''options''" options_char Plus ?rest s] lc by (rule top)
  show ?thesis
  proof (cases "takeWhile options_char s = []")
    case True
    then show ?thesis unfolding e by simp
  next
    case False
    then have "1 \<le> ?hi" by (cases "takeWhile options_char s") auto
    define dw where "dw = dropWhile options_char s"
    from \<open>1 \<le> ?hi\<close> show ?thesis
      unfolding e t d re_match_close dw_def [symmetric] using False
      by (cases dw) (simp_all add: capture_def)
  qed
qed

lemma re_match_bracket: "re_match bracket_pieces s = bracket_match s"
  unfolding bracket_pieces_def RE_POLL_INFO_def bracket_match_def list.sel
  by (subst re_match_Once) (simp add: re_match_options capture_def split: list.splits)


lemma bracket_match_Some:
  assumes "bracket_match s = Some m"
  shows "\<exists>s' r. s = CHR ''['' # s' \<and> takeWhile options_char s' \<noteq> []
           \<and> dropWhile options_char s' = CHR '']'' # r
           \<and> m = [(''options'', takeWhile options_char s'), (''time'', duration_text r)]"
  using assms by (auto simp: bracket_match_def split: list.splits if_splits)

lemma re_match_RE_POLL_INFO:
  "re_match RE_POLL_INFO s =
     first_down (\<lambda>n. map_option (capture (Some ''title'') (take n s)) (bracket_match (drop n s)))
       1 (length (takeWhile any_char s))"
proof -
  have h: "RE_POLL_INFO = Piece (Some ''title'') any_char Plus # bracket_pieces"
    by (simp add: RE_POLL_INFO_def bracket_pieces_def)
  have lc: "least_count Plus = 1" "most_count Plus any_char s = length (takeWhile any_char s)"
    by (simp_all add: least_count_def most_count_def)
  show ?thesis
    unfolding h re_match_Cons re_match_bracket lc by (rule refl)
qed

lemma re_match_RE_POLL_INFO_Some:
  assumes "re_match RE_POLL_INFO s = Some m"
  shows "\<exists>n s' r. 1 \<le> n \<and> n \<le> length (takeWhile any_char s) \<and> drop n s = CHR ''['' # s'
           \<and> takeWhile options_char s' \<noteq> []
           \<and> dropWhile options_char s' = CHR '']'' # r
           \<and> m = [(''title'', take n s), (''options'', takeWhile options_char s'),
                    (''time'', duration_text r)]"
proof -
  from assms obtain n where n: "1 \<le> n" "n \<le> length (takeWhile any_char s)"
    and m: "map_option (capture (Some ''title'') (take n s)) (bracket_match (drop n s)) = Some m"
    unfolding re_match_RE_POLL_INFO by (blast dest: first_down_Some)
  from m obtain m' where m': "bracket_match (drop n s) = Some m'"
    and mm: "m = (''title'', take n s) # m'"
    by (auto simp: capture_def)
  from bracket_match_Some [OF m'] mm n show ?thesis by blast
qed

lemma re_search_Some:
  "re_search ps s = Some m \<Longrightarrow> \<exists>k. re_match ps (drop k s) = Some m"
proof (induction s)
  case Nil
  then show ?case by simp
next
  case (Cons c s)
  show ?case
  proof (cases "re_match ps (c # s)")
    case None
    with Cons.prems have "re_search ps s = Some m" by simp
    from Cons.IH [OF this] obtain k where "re_match ps (drop k s) = Some m" ..
    then have "re_match ps (drop (Suc k) (c # s)) = Some m" by simp
    then show ?thesis ..
  next
    case (Some a)
    with Cons.prems have "re_match ps (drop 0 (c # s)) = Some m" by simp
    then show ?thesis ..
  qed
qed

lemma has_bracketed_choices_drop:
  "has_bracketed_choices (drop k s) \<Longrightarrow> has_bracketed_choices s"
proof (induction s arbitrary: k)
  case Nil
  then show ?case by simp
next
  case (Cons c s)
  then show ?case by (cases k) auto
qed

lemma lacks_numeric_duration_drop:
  "lacks_numeric_duration s \<Longrightarrow> lacks_numeric_duration (drop k s)"
proof (induction s arbitrary: k)
  case Nil
  then show ?case by simp
next
  case (Cons c s)
  then show ?case by (cases k) auto
qed

text \<open>A match of the pattern somewhere in the text: the three groups and where they stand.\<close>

lemma search_RE_POLL_INFO_Some:
  assumes "re_search RE_POLL_INFO text = Some m"
  shows "\<exists>j t s' r. drop j text = CHR ''['' # s' \<and> takeWhile options_char s' \<noteq> []
           \<and> dropWhile options_char s' = CHR '']'' # r
           \<and> m = [(''title'', t), (''options'', takeWhile options_char s'),
                    (''time'', duration_text r)]"
proof -
  from re_search_Some [OF assms] obtain k where "re_match RE_POLL_INFO (drop k text) = Some m" ..
  from re_match_RE_POLL_INFO_Some [OF this] obtain n s' r where
    d: "drop n (drop k text) = CHR ''['' # s'" and o: "takeWhile options_char s' \<noteq> []"
    and c: "dropWhile options_char s' = CHR '']'' # r"
    and m: "m = [(''title'', take n (drop k text)), (''options'', takeWhile options_char s'),
                 (''time'', duration_text r)]"
    by blast
  from d have "drop (n + k) text = CHR ''['' # s'" by simp
  with o c m show ?thesis by blast
qed

lemma search_has_bracketed_choices:
  assumes "re_search RE_POLL_INFO text = Some m"
  shows "has_bracketed_choices text"
proof -
  from search_RE_POLL_INFO_Some [OF assms] obtain j s' r where
    d: "drop j text = CHR ''['' # s'" and o: "takeWhile options_char s' \<noteq> []"
    and c: "dropWhile options_char s' = CHR '']'' # r"
    by blast
  then have "has_bracketed_choices (drop j text)" by simp
  then show ?thesis by (rule has_bracketed_choices_drop)
qed

lemma search_time_group:
  assumes "re_search RE_POLL_INFO text = Some m" and "lacks_numeric_duration text"
  shows "length m = 3 \<and> py_float (group m 3) = None"
proof -
  from search_RE_POLL_INFO_Some [OF assms(1)] obtain j t s' r where
    d: "drop j text = CHR ''['' # s'" and o: "takeWhile options_char s' \<noteq> []"
    and c: "dropWhile options_char s' = CHR '']'' # r"
    and m: "m = [(''title'', t), (''options'', takeWhile options_char s'),
                 (''time'', duration_text r)]"
    by blast
  let ?i = "length (takeWhile options_char s')"
  have "drop ?i s' = CHR '']'' # r" using c by (simp add: dropWhile_eq_drop [symmetric])
  then have "drop (Suc ?i + j) text = CHR '']'' # r"
    using d by (metis add.commute drop_Suc_Cons drop_drop)
  moreover have "lacks_numeric_duration (drop (Suc ?i + j) text)"
    using assms(2) by (rule lacks_numeric_duration_drop)
  ultimately have "py_float (duration_text r) = None" by simp
  then show ?thesis by (simp add: m group_def)
qed

lemma three_groups:
  "length [(a, x), (b, y), (c, z)] = 3"
  "group [(a, x), (b, y), (c, z)] 1 = x"
  "group [(a, x), (b, y), (c, z)] 2 = y"
  "group [(a, x), (b, y), (c, z)] 3 = z"
  by (simp_all add: group_def)

lemma example_search:
  "re_search RE_POLL_INFO ''eat pizza [cheese, pepperoni] 60''
     = Some [(''title'', ''eat pizza ''), (''options'', ''cheese, pepperoni''), (''time'', ''60'')]"
  by code_simp

lemma example_fields:
  "strip ''eat pizza '' = ''eat pizza''"
  "map strip (split_on CHR '','' ''cheese, pepperoni'') = [''cheese'', ''pepperoni'']"
  "try_parse_float ''60'' 30 = 60"
  by code_simp+

lemma first_down_not_None:
  "lo \<le> k \<Longrightarrow> k \<le> n \<Longrightarrow> f k \<noteq> None \<Longrightarrow> first_down f lo n \<noteq> None"
proof (induction n)
  case 0
  then show ?case by simp
next
  case (Suc n)
  show ?case
  proof (cases "k = Suc n")
    case True
    with Suc.prems show ?thesis by auto
  next
    case False
    with Suc.prems have "k \<le> n" by simp
    from Suc.IH [OF Suc.prems(1) this Suc.prems(3)] Suc.prems(1) \<open>k \<le> n\<close>
    show ?thesis by (auto split: option.splits)
  qed
qed

lemma re_search_not_None: "re_match ps s \<noteq> None \<Longrightarrow> re_search ps s \<noteq> None"
  by (cases s) auto

lemma bracket_match_shape:
  assumes "o' \<noteq> []" "list_all options_char o'"
  shows "bracket_match (CHR ''['' # o' @ CHR '']'' # r)
           = Some [(''options'', o'), (''time'', duration_text r)]"
proof -
  have t: "takeWhile options_char (o' @ CHR '']'' # r) = o'"
    using assms(2) options_not_close by (simp add: list_all_iff takeWhile_tail)
  have d: "dropWhile options_char (o' @ CHR '']'' # r) = CHR '']'' # r"
    using assms(2) options_not_close by (simp add: list_all_iff dropWhile_append2)
  show ?thesis by (simp add: bracket_match_def t d assms(1))
qed

text \<open>A text with a title, an opening bracket, choices and a closing bracket has a match.\<close>

lemma search_shape:
  assumes "t \<noteq> []" "list_all any_char t" "o' \<noteq> []" "list_all options_char o'"
  shows "re_search RE_POLL_INFO (t @ CHR ''['' # o' @ CHR '']'' # r) \<noteq> None"
proof -
  let ?s = "t @ CHR ''['' # o' @ CHR '']'' # r"
  let ?f = "\<lambda>n. map_option (capture (Some ''title'') (take n ?s)) (bracket_match (drop n ?s))"
  have lo: "1 \<le> length t" using assms(1) by (cases t) auto
  have "takeWhile any_char ?s = t @ takeWhile any_char (CHR ''['' # o' @ CHR '']'' # r)"
    using assms(2) by (simp add: list_all_iff takeWhile_append2)
  then have hi: "length t \<le> length (takeWhile any_char ?s)" by simp
  have "?f (length t) \<noteq> None" by (simp add: bracket_match_shape [OF assms(3,4)])
  from first_down_not_None [OF lo hi, of ?f, OF this]
  have "re_match RE_POLL_INFO ?s \<noteq> None" by (simp add: re_match_RE_POLL_INFO)
  then show ?thesis by (rule re_search_not_None)
qed

text \<open>
  The group \<open>time\<close> holds digits and full stops only, so \<open>float\<close> is applied to
  such strings only.
\<close>

lemma search_time_group_chars:
  assumes "re_search RE_POLL_INFO text = Some m"
  shows "list_all time_char (group m 3)"
proof -
  from search_RE_POLL_INFO_Some [OF assms] obtain t s' r where
    "m = [(''title'', t), (''options'', takeWhile options_char s'), (''time'', duration_text r)]"
    by blast
  then show ?thesis
    by (auto simp: three_groups duration_text_def list_all_iff dest: set_takeWhileD)
qed

subsection \<open>The parser\<close>

text \<open>
  Claim C7. For the text \<open>eat pizza [cheese, pepperoni] 60\<close> the parser yields the
  title \<open>eat pizza\<close>, the choices \<open>cheese\<close> and \<open>pepperoni\<close> and the duration 60.
  For a text that lacks a numeric duration, the duration of whatever poll data the
  parser yields is 30, and it does yield poll data when the text is a title (one or more
  characters, no newline), an opening bracket, one or more characters of choices, a
  closing bracket, and anything after that. For a text that has no bracketed choice
  list the parser yields no poll data.
\<close>

theorem parse_poll_data_spec:
  "(after_command msg = ''eat pizza [cheese, pepperoni] 60'' \<longrightarrow>
      parse_poll_data msg
        = Some \<lparr>pd_channel = channel msg, pd_owner = author msg, pd_title = ''eat pizza'',
                pd_duration_seconds = 60, pd_choices = [''cheese'', ''pepperoni'']\<rparr>)
   \<and> (lacks_numeric_duration (after_command msg) \<longrightarrow>
        (\<forall>pd. parse_poll_data msg = Some pd \<longrightarrow> pd_duration_seconds pd = 30)
        \<and> (\<forall>t o' r. after_command msg = t @ ''['' @ o' @ '']'' @ r
               \<and> t \<noteq> [] \<and> list_all any_char t \<and> o' \<noteq> [] \<and> list_all options_char o' \<longrightarrow>
               (\<exists>pd. parse_poll_data msg = Some pd \<and> pd_duration_seconds pd = 30)))
   \<and> (\<not> has_bracketed_choices (after_command msg) \<longrightarrow> parse_poll_data msg = None)"
proof -
  have a: "parse_poll_data msg
        = Some \<lparr>pd_channel = channel msg, pd_owner = author msg, pd_title = ''eat pizza'',
                pd_duration_seconds = 60, pd_choices = [''cheese'', ''pepperoni'']\<rparr>"
    if "after_command msg = ''eat pizza [cheese, pepperoni] 60''"
  proof -
    from that have s: "re_search RE_POLL_INFO (after_command msg)
      = Some [(''title'', ''eat pizza ''), (''options'', ''cheese, pepperoni''), (''time'', ''60'')]"
      by (simp only: example_search)
    show ?thesis
      by (simp only: parse_poll_data_def s option.case Let_def three_groups example_fields) simp
  qed
  have b: "pd_duration_seconds pd = 30"
    if "lacks_numeric_duration (after_command msg)" "parse_poll_data msg = Some pd" for pd
  proof -
    from that(2) obtain m where m: "re_search RE_POLL_INFO (after_command msg) = Some m"
      by (auto simp: parse_poll_data_def split: option.splits)
    from search_time_group [OF m that(1)] that(2) show ?thesis
      by (auto simp: parse_poll_data_def m try_parse_float_def Let_def)
  qed
  have c: "\<exists>pd. parse_poll_data msg = Some pd \<and> pd_duration_seconds pd = 30"
    if "lacks_numeric_duration (after_command msg)"
       "after_command msg = t @ ''['' @ o' @ '']'' @ r"
       "t \<noteq> []" "list_all any_char t" "o' \<noteq> []" "list_all options_char o'" for t o' r
  proof -
    from search_shape [OF that(3-6), of r] that(2)
    have "re_search RE_POLL_INFO (after_command msg) \<noteq> None" by simp
    then obtain pd where "parse_poll_data msg = Some pd"
      by (auto simp: parse_poll_data_def Let_def)
    with b [OF that(1)] show ?thesis by blast
  qed
  have d: "parse_poll_data msg = None" if "\<not> has_bracketed_choices (after_command msg)"
  proof -
    from that have "re_search RE_POLL_INFO (after_command msg) = None"
      using search_has_bracketed_choices
      by (cases "re_search RE_POLL_INFO (after_command msg)") auto
    then show ?thesis by (simp add: parse_poll_data_def)
  qed
  from a b c d show ?thesis by blast
qed

theorem parse_poll_data_spec_witness:
  "parse_poll_data with_seconds
     = Some \<lparr>pd_channel = (), pd_owner = u ''bob'', pd_title = ''eat pizza'',
             pd_duration_seconds = 60, pd_choices = [''cheese'', ''pepperoni'']\<rparr>
   \<and> lacks_numeric_duration (after_command no_seconds)
   \<and> (\<exists>pd. parse_poll_data no_seconds = Some pd \<and> pd_duration_seconds pd = 30)
   \<and> \<not> has_bracketed_choices (after_command no_brackets)
   \<and> parse_poll_data no_brackets = None"
proof -
  have l: "lacks_numeric_duration (after_command no_seconds)" by code_simp
  have h: "\<not> has_bracketed_choices (after_command no_brackets)" by code_simp
  have e: "after_command no_seconds = ''eat pizza '' @ ''['' @ ''cheese, pepperoni'' @ '']'' @ []"
    by (simp add: no_seconds_def)
  have t: "''eat pizza '' \<noteq> []" "list_all any_char ''eat pizza ''"
    "''cheese, pepperoni'' \<noteq> []" "list_all options_char ''cheese, pepperoni''"
    by code_simp+
  have w: "after_command with_seconds = ''eat pizza [cheese, pepperoni] 60''"
    by (simp add: with_seconds_def)
  have f: "channel with_seconds = ()" "author with_seconds = u ''bob''"
    by (simp_all add: with_seconds_def)
  note first = parse_poll_data_spec [of with_seconds, THEN conjunct1, THEN mp, OF w]
  note second = parse_poll_data_spec [of no_seconds, THEN conjunct2, THEN conjunct1, THEN mp,
                  OF l, THEN conjunct2, rule_format]
  note third = parse_poll_data_spec [of no_brackets, THEN conjunct2, THEN conjunct2, THEN mp, OF h]
  have a: "parse_poll_data with_seconds
     = Some \<lparr>pd_channel = (), pd_owner = u ''bob'', pd_title = ''eat pizza'',
             pd_duration_seconds = 60, pd_choices = [''cheese'', ''pepperoni'']\<rparr>"
    using first by (simp only: f)
  have b: "\<exists>pd. parse_poll_data no_seconds = Some pd \<and> pd_duration_seconds pd = 30"
    by (rule second [OF conjI [OF e conjI [OF t(1) conjI [OF t(2) conjI [OF t(3) t(4)]]]]])
  from a l b h third show ?thesis by (intro conjI)
qed

end
